theory Spec2Isabelle
  imports Main "HOL-Library.Char_ord" "HOL-Library.List_Lexorder" "HOL-Library.Multiset"
    "HOL-Library.Option_ord" "HOL-Library.Product_Lexorder"
begin

unbundle bit_operations_syntax

section \<open>JavaScript values\<close>

text \<open>
  The values that \<^verbatim>\<open>JSON.parse\<close> can return. Numbers are taken to be integers
  (the program stores no fractional number). An object is its list of own properties;
  a property is looked up with \<open>map_of\<close>. The JavaScript value \<^verbatim>\<open>undefined\<close> is
  \<open>None\<close> of \<open>json option\<close>.
\<close>

datatype json =
    JNull
  | JBool bool
  | JNum int
  | JStr string
  | JArr "json list"
  | JObj "(string \<times> json) list"

datatype js_error =
    SyntaxError | TypeError | SecurityError | QuotaExceededError
  | DataError | BulkError | DatabaseClosedError

text \<open>Truthiness, as \<^verbatim>\<open>if (v)\<close>, \<^verbatim>\<open>v && w\<close> and \<^verbatim>\<open>v || w\<close> test it.\<close>

fun truthy :: "json \<Rightarrow> bool" where
  "truthy JNull = False"
| "truthy (JBool b) = b"
| "truthy (JNum n) = (n \<noteq> 0)"
| "truthy (JStr s) = (s \<noteq> [])"
| "truthy (JArr xs) = True"
| "truthy (JObj kvs) = True"

fun truthy_opt :: "json option \<Rightarrow> bool" where
  "truthy_opt None = False"
| "truthy_opt (Some v) = truthy v"

text \<open>
  \<^verbatim>\<open>v.k\<close> for the property names the program reads (\<^verbatim>\<open>role\<close>, \<^verbatim>\<open>parts\<close>,
  \<^verbatim>\<open>text\<close>): reading a property of \<^verbatim>\<open>null\<close> throws, an object answers with its own
  property, and arrays, strings, numbers and booleans have no property of these names.
\<close>

fun get_prop :: "string \<Rightarrow> json \<Rightarrow> js_error + json option" where
  "get_prop k JNull = Inl TypeError"
| "get_prop k (JObj kvs) = Inr (map_of kvs k)"
| "get_prop k v = Inr None"

text \<open>\<^verbatim>\<open>v[0]\<close>.\<close>

fun index0 :: "json \<Rightarrow> js_error + json option" where
  "index0 JNull = Inl TypeError"
| "index0 (JArr xs) = Inr (case xs of [] \<Rightarrow> None | x # _ \<Rightarrow> Some x)"
| "index0 (JStr s) = Inr (case s of [] \<Rightarrow> None | c # _ \<Rightarrow> Some (JStr [c]))"
| "index0 (JObj kvs) = Inr (map_of kvs ''0'')"
| "index0 v = Inr None"

text \<open>\<^verbatim>\<open>a && f(a)\<close>: the right operand is evaluated only when the left one is truthy.\<close>

fun and_then :: "json option \<Rightarrow> (json \<Rightarrow> js_error + json option) \<Rightarrow> js_error + json option" where
  "and_then None f = Inr None"
| "and_then (Some a) f = (if truthy a then f a else Inr (Some a))"

fun bind_err :: "js_error + 'a \<Rightarrow> ('a \<Rightarrow> js_error + 'b) \<Rightarrow> js_error + 'b" where
  "bind_err (Inl e) f = Inl e"
| "bind_err (Inr a) f = f a"

subsection \<open>Decimal strings\<close>

definition digit_char :: "nat \<Rightarrow> char" where
  "digit_char d = char_of (48 + d)"

text \<open>\<^verbatim>\<open>Date.now().toString()\<close>: the decimal numeral of a non-negative integer.\<close>

function toString :: "nat \<Rightarrow> string" where
  "toString n = (if n < 10 then [digit_char n] else toString (n div 10) @ [digit_char (n mod 10)])"
  by pat_completeness auto
termination
  by (relation "measure (\<lambda>n. n)") auto

declare toString.simps [simp del]

definition digit_val :: "char \<Rightarrow> nat" where
  "digit_val c = of_char c - 48"

text \<open>\<^verbatim>\<open>parseInt\<close> on a string of decimal digits: the number it denotes.\<close>

definition parseInt :: "string \<Rightarrow> nat" where
  "parseInt s = foldl (\<lambda>a c. 10 * a + digit_val c) 0 s"

section \<open>The browser's localStorage\<close>

text \<open>
  A stored item is a string. The program only ever tests a stored string for emptiness
  and hands it to \<^verbatim>\<open>JSON.parse\<close>, so a string is represented by what \<^verbatim>\<open>JSON.parse\<close>
  makes of it: the empty string, a text that is not JSON, or the text of a JSON value.
  \<^verbatim>\<open>JSON.stringify\<close> produces the text of its argument.
\<close>

datatype raw = Blank | Malformed | Json json

fun JSON_parse :: "raw \<Rightarrow> js_error + json" where
  "JSON_parse (Json v) = Inr v"
| "JSON_parse Blank = Inl SyntaxError"
| "JSON_parse Malformed = Inl SyntaxError"

definition JSON_stringify :: "json \<Rightarrow> raw" where
  "JSON_stringify v = Json v"

text \<open>
  The storage area, with the two ways an access fails: \<open>denied\<close> (every access to
  \<^verbatim>\<open>localStorage\<close> throws a SecurityError) and \<open>full\<close> (\<^verbatim>\<open>setItem\<close> throws a
  QuotaExceededError).
\<close>

record local_storage =
  items :: "string \<rightharpoonup> raw"
  denied :: bool
  full :: bool

definition getItem :: "string \<Rightarrow> local_storage \<Rightarrow> js_error + raw option" where
  "getItem k ls = (if denied ls then Inl SecurityError else Inr (items ls k))"

definition setItem :: "string \<Rightarrow> raw \<Rightarrow> local_storage \<Rightarrow> js_error + local_storage" where
  "setItem k v ls =
     (if denied ls then Inl SecurityError
      else if full ls then Inl QuotaExceededError
      else Inr (ls\<lparr>items := (items ls)(k \<mapsto> v)\<rparr>))"

definition removeItem :: "string \<Rightarrow> local_storage \<Rightarrow> js_error + local_storage" where
  "removeItem k ls =
     (if denied ls then Inl SecurityError
      else Inr (ls\<lparr>items := (items ls)(k := None)\<rparr>))"

text \<open>\<^verbatim>\<open>if (raw)\<close> on the result of \<^verbatim>\<open>getItem\<close>: null and the empty string are falsy.\<close>

fun truthy_raw :: "raw option \<Rightarrow> bool" where
  "truthy_raw None = False"
| "truthy_raw (Some Blank) = False"
| "truthy_raw (Some r) = True"

datatype log_entry =
    WarnSaveFailed js_error
  | WarnLoadFailed js_error
  | ErrorLogged js_error

record world =
  localStorage :: local_storage
  console :: "log_entry list"

section \<open>The conversation store on localStorage (utils/localStorage.ts)\<close>

definition CONV_STORAGE_KEY :: string where
  "CONV_STORAGE_KEY = ''dockeri_conversations_v1''"

definition OLD_CHAT_KEY :: string where
  "OLD_CHAT_KEY = ''dockeri_chat_history_v1''"

text \<open>
  \<^verbatim>\<open>saveConversations\<close>: the whole body is inside \<^verbatim>\<open>try\<close>, and the \<^verbatim>\<open>catch\<close> only
  warns. The first component is what the caller gets: \<open>Inr ()\<close> for a normal return.
\<close>

definition saveConversations :: "json \<Rightarrow> world \<Rightarrow> (js_error + unit) \<times> world" where
  "saveConversations conversations w =
     (case setItem CONV_STORAGE_KEY (JSON_stringify conversations) (localStorage w) of
        Inr ls \<Rightarrow> (Inr (), w\<lparr>localStorage := ls\<rparr>)
      | Inl e \<Rightarrow> (Inr (), w\<lparr>console := console w @ [WarnSaveFailed e]\<rparr>))"

text \<open>\<^verbatim>\<open>(msgs || []).find((m) => m.role === 'user')\<close>\<close>

fun find_user :: "json list \<Rightarrow> js_error + json option" where
  "find_user [] = Inr None"
| "find_user (m # ms) =
     bind_err (get_prop ''role'' m)
       (\<lambda>r. if r = Some (JStr ''user'') then Inr (Some m) else find_user ms)"

definition firstUser_of :: "json \<Rightarrow> js_error + json option" where
  "firstUser_of msgs =
     (case (if truthy msgs then msgs else JArr []) of
        JArr ms \<Rightarrow> find_user ms
      | _ \<Rightarrow> Inl TypeError)"

text \<open>
  \<^verbatim>\<open>(firstUser && firstUser.parts && firstUser.parts[0] && firstUser.parts[0].text) || fallback\<close>
\<close>

definition title_of :: "json option \<Rightarrow> string \<Rightarrow> js_error + json" where
  "title_of firstUser fallback =
     bind_err (and_then firstUser (get_prop ''parts''))
       (\<lambda>parts. bind_err (and_then parts index0)
          (\<lambda>part0. bind_err (and_then part0 (get_prop ''text''))
             (\<lambda>t. Inr (case t of
                        None \<Rightarrow> JStr fallback
                      | Some v \<Rightarrow> if truthy v then v else JStr fallback))))"

text \<open>The first block of the \<^verbatim>\<open>try\<close>: \<open>Some data\<close> is \<^verbatim>\<open>return data\<close>.\<close>

definition read_current :: "raw option \<Rightarrow> js_error + json list option" where
  "read_current r =
     (if truthy_raw r then
        bind_err (JSON_parse (the r))
          (\<lambda>data. case data of JArr xs \<Rightarrow> Inr (Some xs) | _ \<Rightarrow> Inr None)
      else Inr None)"

text \<open>
  The migration block, entered when the old key holds a non-empty string. The clock
  reading \<open>now\<close> (\<^verbatim>\<open>Date.now()\<close>) and the locale-dependent fallback title
  (\<^verbatim>\<open>'...' + new Date(parseInt(id)).toLocaleString()\<close>, as a function of the number
  \<^verbatim>\<open>parseInt(id)\<close>) are parameters. The first component is \<open>Inl e\<close> when \<open>e\<close> is thrown.
\<close>

definition migrate_old ::
  "nat \<Rightarrow> (nat \<Rightarrow> string) \<Rightarrow> raw \<Rightarrow> world \<Rightarrow> (js_error + json list) \<times> world" where
  "migrate_old now fallbackTitle oldRaw w =
     (case JSON_parse oldRaw of
        Inl e \<Rightarrow> (Inl e, w)
      | Inr msgs \<Rightarrow>
          let id = toString now in
          (case bind_err (firstUser_of msgs)
                  (\<lambda>firstUser. title_of firstUser (fallbackTitle (parseInt id))) of
             Inl e \<Rightarrow> (Inl e, w)
           | Inr title \<Rightarrow>
               let conversations =
                     [JObj [(''id'', JStr id), (''title'', title),
                            (''messages'', msgs), (''createdAt'', JStr id)]];
                   w1 = snd (saveConversations (JArr conversations) w)
               in (case removeItem OLD_CHAT_KEY (localStorage w1) of
                     Inl e \<Rightarrow> (Inl e, w1)
                   | Inr ls \<Rightarrow> (Inr conversations, w1\<lparr>localStorage := ls\<rparr>))))"

text \<open>The body of the \<^verbatim>\<open>try\<close>: \<open>Inr None\<close> when control leaves it without a return.\<close>

definition loadConversations_try ::
  "nat \<Rightarrow> (nat \<Rightarrow> string) \<Rightarrow> world \<Rightarrow> (js_error + json list option) \<times> world" where
  "loadConversations_try now fallbackTitle w =
     (case bind_err (getItem CONV_STORAGE_KEY (localStorage w)) read_current of
        Inl e \<Rightarrow> (Inl e, w)
      | Inr (Some data) \<Rightarrow> (Inr (Some data), w)
      | Inr None \<Rightarrow>
          (case getItem OLD_CHAT_KEY (localStorage w) of
             Inl e \<Rightarrow> (Inl e, w)
           | Inr oldRaw \<Rightarrow>
               if truthy_raw oldRaw then
                 (case migrate_old now fallbackTitle (the oldRaw) w of
                    (Inl e, w1) \<Rightarrow> (Inl e, w1)
                  | (Inr conversations, w1) \<Rightarrow> (Inr (Some conversations), w1))
               else (Inr None, w)))"

text \<open>\<^verbatim>\<open>loadConversations\<close>: the \<^verbatim>\<open>catch\<close> warns, and every path without a return ends in
  \<^verbatim>\<open>return []\<close>.\<close>

definition loadConversations :: "nat \<Rightarrow> (nat \<Rightarrow> string) \<Rightarrow> world \<Rightarrow> json list \<times> world" where
  "loadConversations now fallbackTitle w =
     (case loadConversations_try now fallbackTitle w of
        (Inl e, w1) \<Rightarrow> ([], w1\<lparr>console := console w1 @ [WarnLoadFailed e]\<rparr>)
      | (Inr None, w1) \<Rightarrow> ([], w1)
      | (Inr (Some data), w1) \<Rightarrow> (data, w1))"

section \<open>The conversation store of the static script\<close>

text \<open>
  The script keeps the list in its global variable \<^verbatim>\<open>conversations\<close>, which
  \<^verbatim>\<open>loadConversations\<close> assigns and \<^verbatim>\<open>saveConversations\<close> writes out. Its fallback
  title is \<^verbatim>\<open>'...' + new Date(id).toLocaleString()\<close>, again a parameter. The results
  carry the variable's new value.
\<close>

definition script_migrate ::
  "nat \<Rightarrow> (nat \<Rightarrow> string) \<Rightarrow> raw \<Rightarrow> json list \<Rightarrow> world
   \<Rightarrow> (js_error + unit) \<times> json list \<times> world" where
  "script_migrate now fallbackTitle oldRaw conversations_var w =
     (case JSON_parse oldRaw of
        Inl e \<Rightarrow> (Inl e, conversations_var, w)
      | Inr msgs \<Rightarrow>
          let id = toString now in
          (case bind_err (firstUser_of msgs)
                  (\<lambda>firstUser. title_of firstUser (fallbackTitle (parseInt id))) of
             Inl e \<Rightarrow> (Inl e, conversations_var, w)
           | Inr title \<Rightarrow>
               let assigned =
                     [JObj [(''id'', JStr id), (''title'', title),
                            (''messages'', msgs), (''createdAt'', JStr id)]];
                   w1 = snd (saveConversations (JArr assigned) w)
               in (case removeItem OLD_CHAT_KEY (localStorage w1) of
                     Inl e \<Rightarrow> (Inl e, assigned, w1)
                   | Inr ls \<Rightarrow> (Inr (), assigned, w1\<lparr>localStorage := ls\<rparr>))))"

definition script_loadConversations_try ::
  "nat \<Rightarrow> (nat \<Rightarrow> string) \<Rightarrow> json list \<Rightarrow> world \<Rightarrow> (js_error + unit) \<times> json list \<times> world" where
  "script_loadConversations_try now fallbackTitle conversations_var w =
     (case getItem CONV_STORAGE_KEY (localStorage w) of
        Inl e \<Rightarrow> (Inl e, conversations_var, w)
      | Inr r \<Rightarrow>
          if truthy_raw r then
            (case JSON_parse (the r) of
               Inl e \<Rightarrow> (Inl e, conversations_var, w)
             | Inr data \<Rightarrow>
                 (Inr (), (case data of JArr xs \<Rightarrow> xs | _ \<Rightarrow> conversations_var), w))
          else
            (case getItem OLD_CHAT_KEY (localStorage w) of
               Inl e \<Rightarrow> (Inl e, conversations_var, w)
             | Inr oldRaw \<Rightarrow>
                 if truthy_raw oldRaw
                 then script_migrate now fallbackTitle (the oldRaw) conversations_var w
                 else (Inr (), conversations_var, w)))"

definition script_loadConversations ::
  "nat \<Rightarrow> (nat \<Rightarrow> string) \<Rightarrow> json list \<Rightarrow> world \<Rightarrow> json list \<times> world" where
  "script_loadConversations now fallbackTitle conversations_var w =
     (case script_loadConversations_try now fallbackTitle conversations_var w of
        (Inl e, cv, w1) \<Rightarrow> (cv, w1\<lparr>console := console w1 @ [WarnLoadFailed e]\<rparr>)
      | (Inr _, cv, w1) \<Rightarrow> (cv, w1))"

section \<open>The typed data model (types/index.ts)\<close>

datatype role = User | Model

datatype icon = IconSuccess | IconError | IconInfo | IconWarning

datatype upload_status = Uploaded | Processing | Done | Failed

record message_part =
  ptext :: string
  icon :: "icon option"

record upload_status_info =
  status :: upload_status
  info_message :: "string option"
  progress :: "int option"

record message =
  role :: role
  parts :: "message_part list"
  uploadStatus :: "upload_status_info option"

record conversation =
  cid :: string
  title :: string
  messages :: "message list"
  createdAt :: string

text \<open>The JavaScript objects these records stand for (an absent optional field is no property).\<close>

fun role_name :: "role \<Rightarrow> string" where
  "role_name User = ''user''"
| "role_name Model = ''model''"

fun icon_name :: "icon \<Rightarrow> string" where
  "icon_name IconSuccess = ''success''"
| "icon_name IconError = ''error''"
| "icon_name IconInfo = ''info''"
| "icon_name IconWarning = ''warning''"

fun status_name :: "upload_status \<Rightarrow> string" where
  "status_name Uploaded = ''uploaded''"
| "status_name Processing = ''processing''"
| "status_name Done = ''done''"
| "status_name Failed = ''failed''"

definition opt_prop :: "string \<Rightarrow> ('a \<Rightarrow> json) \<Rightarrow> 'a option \<Rightarrow> (string \<times> json) list" where
  "opt_prop k f x = (case x of None \<Rightarrow> [] | Some v \<Rightarrow> [(k, f v)])"

definition part_json :: "message_part \<Rightarrow> json" where
  "part_json p = JObj ((''text'', JStr (ptext p)) # opt_prop ''icon'' (\<lambda>i. JStr (icon_name i)) (icon p))"

definition info_json :: "upload_status_info \<Rightarrow> json" where
  "info_json u =
     JObj ((''status'', JStr (status_name (status u)))
           # opt_prop ''message'' JStr (info_message u) @ opt_prop ''progress'' JNum (progress u))"

definition message_json :: "message \<Rightarrow> json" where
  "message_json m =
     JObj ([(''role'', JStr (role_name (role m))), (''parts'', JArr (map part_json (parts m)))]
           @ opt_prop ''uploadStatus'' info_json (uploadStatus m))"

definition conversation_json :: "conversation \<Rightarrow> json" where
  "conversation_json c =
     JObj [(''id'', JStr (cid c)), (''title'', JStr (title c)),
           (''messages'', JArr (map message_json (messages c))), (''createdAt'', JStr (createdAt c))]"

definition conversations_json :: "conversation list \<Rightarrow> json" where
  "conversations_json cs = JArr (map conversation_json cs)"

text \<open>
  The title of a migrated conversation in the specification's words: the text of the
  first part of the first user message, or the generated fallback.
\<close>

definition spec_title :: "message list \<Rightarrow> string \<Rightarrow> string" where
  "spec_title msgs fallback =
     (case find (\<lambda>m. role m = User) msgs of
        None \<Rightarrow> fallback
      | Some m \<Rightarrow>
          (case parts m of
             [] \<Rightarrow> fallback
           | p # _ \<Rightarrow> if ptext p = [] then fallback else ptext p))"

text \<open>A storage area that holds a legacy record only.\<close>

definition legacy_only :: "message list \<Rightarrow> local_storage" where
  "legacy_only msgs =
     \<lparr>items = [OLD_CHAT_KEY \<mapsto> Json (JArr (map message_json msgs))], denied = False, full = False\<rparr>"

text \<open>The migrated list in the specification's words, and the storage area that holds it.\<close>

definition spec_migrated :: "message list \<Rightarrow> nat \<Rightarrow> (nat \<Rightarrow> string) \<Rightarrow> conversation list" where
  "spec_migrated msgs now fallbackTitle =
     [\<lparr>cid = toString now, title = spec_title msgs (fallbackTitle now),
       messages = msgs, createdAt = toString now\<rparr>]"

definition current_only :: "conversation list \<Rightarrow> local_storage" where
  "current_only cs =
     \<lparr>items = [CONV_STORAGE_KEY \<mapsto> Json (conversations_json cs)], denied = False, full = False\<rparr>"

text \<open>
  A page whose storage holds the legacy record of one user message \<^verbatim>\<open>hi\<close> and nothing
  else, and has no room left: \<^verbatim>\<open>setItem\<close> throws a QuotaExceededError.
\<close>

definition legacy_full :: world where
  "legacy_full =
     \<lparr>localStorage =
        \<lparr>items = [OLD_CHAT_KEY \<mapsto>
                    Json (JArr [message_json
                                  \<lparr>role = User, parts = [\<lparr>ptext = ''hi'', icon = None\<rparr>],
                                   uploadStatus = None\<rparr>])],
         denied = False, full = True\<rparr>,
      console = []\<rparr>"


section \<open>The session controller (App.tsx)\<close>

text \<open>
  The component's state variables, with the browser's storage and console. A handler
  reads the state of the render it was created in, which is the current state when the
  handler is invoked; what a handler keeps across an \<^verbatim>\<open>await\<close> are its local variables.
\<close>

record app =
  conversations :: "conversation list"
  currentConversationId :: "string option"
  chatContext :: "message list"
  promptValue :: string
  browser :: world

text \<open>
  \<^verbatim>\<open>String.prototype.trim\<close> strips the white space and the line terminators of
  ECMAScript. A string is here a list of code units below 256; among those, these seven
  are stripped: tab, line feed, vertical tab, form feed, carriage return, space and the
  no-break space U+00A0 (the others that \<^verbatim>\<open>trim\<close> strips, such as U+FEFF, U+2028 and
  U+3000, lie above 255).
\<close>

definition is_space :: "char \<Rightarrow> bool" where
  "is_space c =
     (c \<in> set [CHR 0x09, CHR 0x0A, CHR 0x0B, CHR 0x0C, CHR 0x0D, CHR 0x20, CHR 0xA0])"

definition trim :: "string \<Rightarrow> string" where
  "trim s = rev (dropWhile is_space (rev (dropWhile is_space s)))"

definition text_message :: "role \<Rightarrow> string \<Rightarrow> message" where
  "text_message r t = \<lparr>role = r, parts = [\<lparr>ptext = t, icon = None\<rparr>], uploadStatus = None\<rparr>"


definition loadingMsg :: message where
  "loadingMsg = text_message Model []"

text \<open>\<^verbatim>\<open>cs.map((c) => c.id === convId ? { ...c, messages: ctx } : c)\<close>\<close>

definition with_messages :: "string \<Rightarrow> message list \<Rightarrow> conversation list \<Rightarrow> conversation list" where
  "with_messages i ctx cs = map (\<lambda>c. if cid c = i then c\<lparr>messages := ctx\<rparr> else c) cs"

text \<open>\<^verbatim>\<open>setConversations(cs); saveConversations(cs)\<close>\<close>

definition persist :: "conversation list \<Rightarrow> app \<Rightarrow> app" where
  "persist cs s =
     s\<lparr>conversations := cs,
       browser := snd (saveConversations (conversations_json cs) (browser s))\<rparr>"



definition handleOpenConversation :: "string \<Rightarrow> app \<Rightarrow> app" where
  "handleOpenConversation i s =
     (case find (\<lambda>c. cid c = i) (conversations s) of
        None \<Rightarrow> s
      | Some conv \<Rightarrow> s\<lparr>currentConversationId := Some i, chatContext := messages conv\<rparr>)"


text \<open>
  \<^verbatim>\<open>handleSendMessage\<close> runs in three parts. The first, up to the \<^verbatim>\<open>await\<close>, returns
  the local variables the rest of the flow keeps: \<^verbatim>\<open>newContext\<close>, \<^verbatim>\<open>convId\<close> and
  \<^verbatim>\<open>updatedConversations\<close>. \<open>None\<close> is the early return on an empty prompt.
\<close>

record send_flow =
  newContext :: "message list"
  convId :: string
  updatedConversations :: "conversation list"

text \<open>\<^verbatim>\<open>!convId\<close>: null and the empty string.\<close>

fun falsy_id :: "string option \<Rightarrow> bool" where
  "falsy_id None = True"
| "falsy_id (Some i) = (i = [])"

definition sendMessage_start :: "nat \<Rightarrow> app \<Rightarrow> send_flow option \<times> app" where
  "sendMessage_start now s =
     (let text = trim (promptValue s) in
      if text = [] then (None, s)
      else
        let s1 = s\<lparr>promptValue := []\<rparr>;
            userMsg = text_message User text;
            ctx = chatContext s @ [userMsg];
            s2 = s1\<lparr>chatContext := ctx\<rparr>;
            s3 = s2\<lparr>chatContext := ctx @ [loadingMsg]\<rparr>
        in if falsy_id (currentConversationId s) then
             let id = toString now;
                 newConv = \<lparr>cid = id, title = text, messages = ctx, createdAt = id\<rparr>;
                 updated = newConv # conversations s;
                 s4 = s3\<lparr>conversations := updated\<rparr>;
                 s5 = s4\<lparr>currentConversationId := Some id\<rparr>;
                 s6 = s5\<lparr>browser := snd (saveConversations (conversations_json updated) (browser s5))\<rparr>
             in (Some \<lparr>newContext = ctx, convId = id, updatedConversations = updated\<rparr>, s6)
           else
             let i = the (currentConversationId s);
                 updatedConvs = with_messages i ctx (conversations s)
             in (Some \<lparr>newContext = ctx, convId = i, updatedConversations = updatedConvs\<rparr>,
                 persist updatedConvs s3))"

text \<open>The \<^verbatim>\<open>onChunk\<close> callback handed to \<^verbatim>\<open>streamChatMessage\<close>.\<close>

definition sendMessage_chunk :: "send_flow \<Rightarrow> string \<Rightarrow> app \<Rightarrow> app" where
  "sendMessage_chunk fl chunk s = s\<lparr>chatContext := newContext fl @ [text_message Model chunk]\<rparr>"




text \<open>What the store holds under the current key, and the first stored record of an id.\<close>

definition persisted :: "app \<Rightarrow> raw option" where
  "persisted s = items (localStorage (browser s)) CONV_STORAGE_KEY"

definition writable :: "app \<Rightarrow> bool" where
  "writable s = (\<not> denied (localStorage (browser s)) \<and> \<not> full (localStorage (browser s)))"

definition fresh_app :: "string \<Rightarrow> app" where
  "fresh_app prompt =
     \<lparr>conversations = [], currentConversationId = None, chatContext = [], promptValue = prompt,
      browser = \<lparr>localStorage = \<lparr>items = Map.empty, denied = False, full = False\<rparr>, console = []\<rparr>\<rparr>"







definition is_digit :: "char \<Rightarrow> bool" where
  "is_digit c = (\<exists>d<10. c = digit_char d)"

section \<open>The task poller (services/apiService.ts)\<close>

text \<open>
  What one round of the loop meets: the outcome of the status request, the time the
  request takes and the time by which the timer fires late, in milliseconds. A poll
  session is run against a list of rounds; \<open>None\<close> means that the session is still
  running when the list ends. The outcome of a request is a response with a success
  status (2xx), whose body is a status record; a response with an error status, with the
  status record its body holds if the body is JSON (\<open>None\<close> if it is not; a JSON body
  is taken to be a status record, as the program's types have it); or no response.
\<close>

datatype request_outcome =
    Answer upload_status_info
  | HttpStatus nat "upload_status_info option"
  | NetworkFailure

record poll_round =
  outcome :: request_outcome
  latency :: nat
  oversleep :: nat

datatype poll_error = PollingTimeout | RequestFailed request_outcome

datatype poll_result = Returned upload_status_info | Thrown poll_error

definition maxInterval :: nat where
  "maxInterval = 5000"

definition maxTimeout :: nat where
  "maxTimeout = 1000 * 60 * 20"

text \<open>The texts of the synthesized statuses, as UTF-8 bytes.\<close>

definition timeout_text :: string where
  "timeout_text = map char_of
     [0xED, 0x83, 0x80, 0xEC, 0x9E, 0x84, 0xEC, 0x95, 0x84, 0xEC, 0x9B, 0x83 :: nat]"

definition not_found_text :: string where
  "not_found_text = map char_of
     [0xEC, 0x9E, 0x91, 0xEC, 0x97, 0x85, 0xEC, 0x9D, 0x84, 0x20, 0xEC, 0xB0, 0xBE, 0xEC, 0x9D,
      0x84, 0x20, 0xEC, 0x88, 0x98, 0x20, 0xEC, 0x97, 0x86, 0xEC, 0x8A, 0xB5, 0xEB, 0x8B, 0x88,
      0xEB, 0x8B, 0xA4 :: nat]"

definition network_abort_text :: string where
  "network_abort_text = map char_of
     [0xEB, 0x84, 0xA4, 0xED, 0x8A, 0xB8, 0xEC, 0x9B, 0x8C, 0xED, 0x81, 0xAC, 0x20, 0xEC, 0x98,
      0xA4, 0xEB, 0xA5, 0x98, 0xEB, 0xA1, 0x9C, 0x20, 0xED, 0x8F, 0xB4, 0xEB, 0xA7, 0x81, 0x20,
      0xEC, 0xA4, 0x91, 0xEB, 0x8B, 0xA8 :: nat]"

definition terminal :: "upload_status_info \<Rightarrow> bool" where
  "terminal info = (status info = Done \<or> status info = Failed)"

text \<open>\<^verbatim>\<open>{ status: 'failed', message: ..., progress: info.progress || 0 }\<close>\<close>

definition timeoutInfo :: "upload_status_info \<Rightarrow> upload_status_info" where
  "timeoutInfo info =
     \<lparr>status = Failed, info_message = Some timeout_text,
      progress = Some (case progress info of None \<Rightarrow> 0 | Some p \<Rightarrow> p)\<rparr>"

definition errorInfo :: upload_status_info where
  "errorInfo = \<lparr>status = Failed, info_message = Some not_found_text, progress = Some 0\<rparr>"

text \<open>
  The loop, with its variables \<open>interval\<close> and \<open>start\<close>, the clock \<open>t\<close> and the
  statuses handed to \<^verbatim>\<open>onUpdate\<close> so far. A result carries the statuses delivered and
  the time at which the session ended.
\<close>

fun pollUploadStatus_loop ::
  "poll_round list \<Rightarrow> nat \<Rightarrow> nat \<Rightarrow> nat \<Rightarrow> upload_status_info list
   \<Rightarrow> (poll_result \<times> upload_status_info list \<times> nat) option" where
  "pollUploadStatus_loop [] interval start t cbs = None"
| "pollUploadStatus_loop (r # rs) interval start t cbs =
     (let t1 = t + latency r in
      case outcome r of
        Answer info \<Rightarrow>
          if terminal info then Some (Returned info, cbs @ [info], t1)
          else if t1 - start > maxTimeout
            then Some (Thrown PollingTimeout, cbs @ [info, timeoutInfo info], t1)
          else pollUploadStatus_loop rs (min (interval * 2) maxInterval) start
                 (t1 + interval + oversleep r) (cbs @ [info])
      | HttpStatus code body \<Rightarrow>
          if code = 404 then Some (Returned errorInfo, cbs @ [errorInfo], t1)
          else Some (Thrown (RequestFailed (HttpStatus code body)), cbs, t1)
      | NetworkFailure \<Rightarrow> Some (Thrown (RequestFailed NetworkFailure), cbs, t1))"

definition pollUploadStatus ::
  "nat \<Rightarrow> poll_round list \<Rightarrow> (poll_result \<times> upload_status_info list \<times> nat) option" where
  "pollUploadStatus start rs = pollUploadStatus_loop rs 2000 start start []"

section \<open>The task poller of the static script\<close>

definition abortInfo :: upload_status_info where
  "abortInfo = \<lparr>status = Failed, info_message = Some network_abort_text, progress = Some 0\<rparr>"

text \<open>
  Here \<^verbatim>\<open>fetch\<close> throws on a network failure only, and the script tests the response
  for the status 404 and for nothing else: the body of any other response is parsed with
  \<^verbatim>\<open>res.json()\<close>, which throws if the body is not JSON, and what it yields is read as a
  status record, whatever the HTTP status. The \<^verbatim>\<open>catch\<close> also receives the timeout
  error thrown inside the \<^verbatim>\<open>try\<close>. \<open>legacy_poll_answered\<close> is the \<^verbatim>\<open>try\<close> from
  \<^verbatim>\<open>consecutiveFailures = 0\<close> on.
\<close>

fun legacy_poll_loop ::
  "poll_round list \<Rightarrow> nat \<Rightarrow> nat \<Rightarrow> nat \<Rightarrow> nat \<Rightarrow> upload_status_info list
   \<Rightarrow> (poll_result \<times> upload_status_info list \<times> nat) option"
and legacy_poll_answered ::
  "upload_status_info \<Rightarrow> poll_round \<Rightarrow> poll_round list \<Rightarrow> nat \<Rightarrow> nat \<Rightarrow> nat
   \<Rightarrow> upload_status_info list
   \<Rightarrow> (poll_result \<times> upload_status_info list \<times> nat) option"
and legacy_poll_catch ::
  "poll_error \<Rightarrow> poll_round \<Rightarrow> poll_round list \<Rightarrow> nat \<Rightarrow> nat \<Rightarrow> nat \<Rightarrow> nat
   \<Rightarrow> upload_status_info list
   \<Rightarrow> (poll_result \<times> upload_status_info list \<times> nat) option" where
  "legacy_poll_loop [] interval start t consecutiveFailures cbs = None"
| "legacy_poll_loop (r # rs) interval start t consecutiveFailures cbs =
     (let t1 = t + latency r in
      case outcome r of
        NetworkFailure \<Rightarrow>
          legacy_poll_catch (RequestFailed NetworkFailure) r rs interval start t1
            consecutiveFailures cbs
      | HttpStatus code body \<Rightarrow>
          if code = 404
            then Some (Returned \<lparr>status = Failed, info_message = None, progress = None\<rparr>,
                       cbs @ [errorInfo], t1)
          else (case body of
                  None \<Rightarrow>
                    legacy_poll_catch (RequestFailed (HttpStatus code None)) r rs interval start
                      t1 consecutiveFailures cbs
                | Some info \<Rightarrow> legacy_poll_answered info r rs interval start t1 cbs)
      | Answer info \<Rightarrow> legacy_poll_answered info r rs interval start t1 cbs)"
| "legacy_poll_answered info r rs interval start t1 cbs =
     (if terminal info then Some (Returned info, cbs @ [info], t1)
      else if t1 - start > maxTimeout
        then legacy_poll_catch PollingTimeout r rs interval start t1 0
               (cbs @ [info, timeoutInfo info])
      else legacy_poll_loop rs (min (interval * 2) maxInterval) start
             (t1 + interval + oversleep r) 0 (cbs @ [info]))"
| "legacy_poll_catch err r rs interval start t1 consecutiveFailures cbs =
     (if consecutiveFailures + 1 \<ge> 5 then Some (Thrown err, cbs @ [abortInfo], t1)
      else legacy_poll_loop rs (min (interval * 2) maxInterval) start
             (t1 + min interval maxInterval + oversleep r) (consecutiveFailures + 1) cbs)"

definition legacy_pollUploadStatus ::
  "nat \<Rightarrow> poll_round list \<Rightarrow> (poll_result \<times> upload_status_info list \<times> nat) option" where
  "legacy_pollUploadStatus start rs = legacy_poll_loop rs 2000 start start 0 []"

text \<open>
  Rounds for the statements below. A round is \<open>failing\<close> for the poller of
  apiService.ts when its request ends in any error but a 404 (axios throws on every error
  status), and \<open>script_failing\<close> for the script's poller when \<^verbatim>\<open>fetch\<close> or
  \<^verbatim>\<open>res.json()\<close> throws; \<open>script_answer r info\<close> says that the script reads the
  status record \<open>info\<close> from the response.
\<close>

definition failing :: "poll_round \<Rightarrow> bool" where
  "failing r =
     (outcome r = NetworkFailure
      \<or> (\<exists>code body. outcome r = HttpStatus code body \<and> code \<noteq> 404))"

definition script_failing :: "poll_round \<Rightarrow> bool" where
  "script_failing r =
     (outcome r = NetworkFailure \<or> (\<exists>code. outcome r = HttpStatus code None \<and> code \<noteq> 404))"

definition script_answer :: "poll_round \<Rightarrow> upload_status_info \<Rightarrow> bool" where
  "script_answer r info =
     (outcome r = Answer info
      \<or> (\<exists>code. outcome r = HttpStatus code (Some info) \<and> code \<noteq> 404))"

definition pending :: "poll_round \<Rightarrow> bool" where
  "pending r = (\<exists>info. outcome r = Answer info \<and> \<not> terminal info)"

definition answer_of :: "poll_round \<Rightarrow> upload_status_info" where
  "answer_of r = (case outcome r of Answer info \<Rightarrow> info | _ \<Rightarrow> errorInfo)"

definition is_timeout_info :: "upload_status_info \<Rightarrow> bool" where
  "is_timeout_info u = (status u = Failed \<and> info_message u = Some timeout_text)"

definition net_fail :: poll_round where
  "net_fail = \<lparr>outcome = NetworkFailure, latency = 50, oversleep = 0\<rparr>"

definition done_round :: poll_round where
  "done_round =
     \<lparr>outcome = Answer \<lparr>status = Done, info_message = None, progress = Some 100\<rparr>,
      latency = 50, oversleep = 0\<rparr>"

definition busy_round :: poll_round where
  "busy_round =
     \<lparr>outcome = Answer \<lparr>status = Processing, info_message = None, progress = Some 30\<rparr>,
      latency = 50, oversleep = 0\<rparr>"

definition bad_gateway :: poll_round where
  "bad_gateway = \<lparr>outcome = HttpStatus 502 None, latency = 50, oversleep = 0\<rparr>"

definition busy_error :: poll_round where
  "busy_error =
     \<lparr>outcome =
        HttpStatus 500 (Some \<lparr>status = Processing, info_message = None, progress = Some 40\<rparr>),
      latency = 50, oversleep = 0\<rparr>"

section \<open>The stream consumer (streamChatMessage in services/apiService.ts)\<close>

text \<open>
  \<^verbatim>\<open>new TextDecoder('utf-8')\<close> is the platform's decoder; it is modelled after the
  Encoding Standard. A byte is a number below 256, a text is the list of its code points.
  The state of the UTF-8 decoder:
\<close>

record utf8_decoder =
  code_point :: nat
  bytes_seen :: nat
  bytes_needed :: nat
  lower_boundary :: nat
  upper_boundary :: nat

definition new_utf8_decoder :: utf8_decoder where
  "new_utf8_decoder =
     \<lparr>code_point = 0, bytes_seen = 0, bytes_needed = 0,
      lower_boundary = 0x80, upper_boundary = 0xBF\<rparr>"

text \<open>
  The handler on one byte when no byte is needed: the new state and the code points
  emitted (an error emits U+FFFD, the decoder not being fatal).
\<close>

definition lead_byte :: "utf8_decoder \<Rightarrow> nat \<Rightarrow> utf8_decoder \<times> nat list" where
  "lead_byte d b =
     (if b \<le> 0x7F then (d, [b])
      else if 0xC2 \<le> b \<and> b \<le> 0xDF
        then (d\<lparr>bytes_needed := 1, code_point := b AND 0x1F\<rparr>, [])
      else if 0xE0 \<le> b \<and> b \<le> 0xEF
        then (d\<lparr>lower_boundary := (if b = 0xE0 then 0xA0 else lower_boundary d),
                upper_boundary := (if b = 0xED then 0x9F else upper_boundary d),
                bytes_needed := 2, code_point := b AND 0xF\<rparr>, [])
      else if 0xF0 \<le> b \<and> b \<le> 0xF4
        then (d\<lparr>lower_boundary := (if b = 0xF0 then 0x90 else lower_boundary d),
                upper_boundary := (if b = 0xF4 then 0x8F else upper_boundary d),
                bytes_needed := 3, code_point := b AND 0x7\<rparr>, [])
      else (d, [0xFFFD]))"

text \<open>
  The handler on one byte. A byte outside the boundaries resets the decoder, emits
  U+FFFD and is read again, now with no byte needed.
\<close>

definition utf8_handler :: "utf8_decoder \<Rightarrow> nat \<Rightarrow> utf8_decoder \<times> nat list" where
  "utf8_handler d b =
     (if bytes_needed d = 0 then lead_byte d b
      else if \<not> (lower_boundary d \<le> b \<and> b \<le> upper_boundary d) then
        (let d0 = d\<lparr>code_point := 0, bytes_needed := 0, bytes_seen := 0,
                    lower_boundary := 0x80, upper_boundary := 0xBF\<rparr>;
             (d1, out) = lead_byte d0 b
         in (d1, 0xFFFD # out))
      else
        (let d1 = d\<lparr>lower_boundary := 0x80, upper_boundary := 0xBF,
                    code_point := push_bit 6 (code_point d) OR (b AND 0x3F),
                    bytes_seen := bytes_seen d + 1\<rparr>
         in if bytes_seen d1 \<noteq> bytes_needed d1 then (d1, [])
            else (d1\<lparr>code_point := 0, bytes_needed := 0, bytes_seen := 0\<rparr>, [code_point d1])))"

fun decode_bytes :: "utf8_decoder \<Rightarrow> nat list \<Rightarrow> utf8_decoder \<times> nat list" where
  "decode_bytes d [] = (d, [])"
| "decode_bytes d (b # bs) =
     (let (d1, out1) = utf8_handler d b; (d2, out2) = decode_bytes d1 bs in (d2, out1 @ out2))"

text \<open>
  The \<^verbatim>\<open>TextDecoder\<close> object: its decoder and its flag \<^verbatim>\<open>BOM seen\<close>. With
  \<^verbatim>\<open>stream: true\<close> both are kept from one call of \<^verbatim>\<open>decode\<close> to the next, and the end
  of the chunk is not the end of the input. The first code point of the whole output is
  dropped if it is U+FEFF (\<^verbatim>\<open>ignoreBOM\<close> is false).
\<close>

record text_decoder =
  decoder :: utf8_decoder
  bom_seen :: bool

definition new_TextDecoder :: text_decoder where
  "new_TextDecoder = \<lparr>decoder = new_utf8_decoder, bom_seen = False\<rparr>"

definition serialize :: "bool \<Rightarrow> nat list \<Rightarrow> bool \<times> nat list" where
  "serialize seen out =
     (case out of
        [] \<Rightarrow> (seen, [])
      | c # cs \<Rightarrow> (True, if \<not> seen \<and> c = 0xFEFF then cs else c # cs))"

definition decode_stream :: "text_decoder \<Rightarrow> nat list \<Rightarrow> text_decoder \<times> nat list" where
  "decode_stream td bytes =
     (let (d, out) = decode_bytes (decoder td) bytes;
          (seen, chunk) = serialize (bom_seen td) out
      in (\<lparr>decoder = d, bom_seen = seen\<rparr>, chunk))"

text \<open>
  The read loop. Each read of the body delivers a chunk of bytes or fails; the list ends
  where the reader reports \<^verbatim>\<open>done\<close>. The result is what the function returns or throws,
  with the texts handed to \<^verbatim>\<open>onChunk\<close>, in order.
\<close>

datatype stream_error = ServerError | StreamUnsupported | ReadFailed

fun read_loop ::
  "text_decoder \<Rightarrow> nat list \<Rightarrow> (stream_error + nat list) list \<Rightarrow> nat list list
   \<Rightarrow> (stream_error + nat list) \<times> nat list list" where
  "read_loop td accumulatedText [] calls = (Inr accumulatedText, calls)"
| "read_loop td accumulatedText (Inl e # rest) calls = (Inl e, calls)"
| "read_loop td accumulatedText (Inr v # rest) calls =
     (let (td1, chunk) = decode_stream td v;
          accumulatedText1 = accumulatedText @ chunk
      in read_loop td1 accumulatedText1 rest (calls @ [accumulatedText1]))"

record http_response =
  ok :: bool
  body :: "(stream_error + nat list) list option"

definition streamChatMessage :: "http_response \<Rightarrow> (stream_error + nat list) \<times> nat list list" where
  "streamChatMessage response =
     (if \<not> ok response then (Inl ServerError, [])
      else case body response of
             None \<Rightarrow> (Inl StreamUnsupported, [])
           | Some reads \<Rightarrow> read_loop new_TextDecoder [] reads [])"

text \<open>The UTF-8 encoding of a text, which the server sends.\<close>

definition scalar_value :: "nat \<Rightarrow> bool" where
  "scalar_value c = (c \<le> 0x10FFFF \<and> \<not> (0xD800 \<le> c \<and> c \<le> 0xDFFF))"

definition utf8_encode_cp :: "nat \<Rightarrow> nat list" where
  "utf8_encode_cp c =
     (if c \<le> 0x7F then [c]
      else if c \<le> 0x7FF then [drop_bit 6 c + 0xC0, 0x80 OR (c AND 0x3F)]
      else if c \<le> 0xFFFF
        then [drop_bit 12 c + 0xE0, 0x80 OR (drop_bit 6 c AND 0x3F), 0x80 OR (c AND 0x3F)]
      else [drop_bit 18 c + 0xF0, 0x80 OR (drop_bit 12 c AND 0x3F),
            0x80 OR (drop_bit 6 c AND 0x3F), 0x80 OR (c AND 0x3F)])"

definition utf8_encode :: "nat list \<Rightarrow> nat list" where
  "utf8_encode cs = concat (map utf8_encode_cp cs)"

definition strip_bom :: "nat list \<Rightarrow> nat list" where
  "strip_bom cs = (case cs of [] \<Rightarrow> [] | c # rest \<Rightarrow> if c = 0xFEFF then rest else c # rest)"

text \<open>What one call of \<^verbatim>\<open>decode\<close> on a new decoder makes of all the bytes at once.\<close>

definition decode_all :: "nat list \<Rightarrow> nat list" where
  "decode_all bytes = snd (decode_stream new_TextDecoder bytes)"

section \<open>The conversation store on IndexedDB (utils/indexedDBStorage.ts)\<close>

text \<open>
  The object store \<^verbatim>\<open>conversations\<close> of the Dexie database, declared with the schema
  \<^verbatim>\<open>'id, title, createdAt'\<close>: primary key \<^verbatim>\<open>id\<close>, indexes on \<^verbatim>\<open>title\<close> and
  \<^verbatim>\<open>createdAt\<close>. Dexie and IndexedDB are the platform's; they are modelled after their
  documentation. A key is a number or a string, every number before every string (keys
  that are arrays, which the program never makes, are taken as invalid).
\<close>

datatype idb_key = KNum int | KStr string

instantiation idb_key :: linorder
begin

fun less_eq_idb_key :: "idb_key \<Rightarrow> idb_key \<Rightarrow> bool" where
  "less_eq_idb_key (KNum a) (KNum b) = (a \<le> b)"
| "less_eq_idb_key (KNum a) (KStr b) = True"
| "less_eq_idb_key (KStr a) (KNum b) = False"
| "less_eq_idb_key (KStr a) (KStr b) = (a \<le> b)"

definition less_idb_key :: "idb_key \<Rightarrow> idb_key \<Rightarrow> bool" where
  "less_idb_key x y = (x \<le> y \<and> \<not> y \<le> x)"

instance
proof
  fix x y z :: idb_key
  show "(x < y) = (x \<le> y \<and> \<not> y \<le> x)" by (simp add: less_idb_key_def)
  show "x \<le> x" by (cases x) auto
  show "x \<le> y \<Longrightarrow> y \<le> z \<Longrightarrow> x \<le> z" by (cases x; cases y; cases z) auto
  show "x \<le> y \<Longrightarrow> y \<le> x \<Longrightarrow> x = y" by (cases x; cases y) auto
  show "x \<le> y \<or> y \<le> x" by (cases x; cases y) auto
qed

end

fun key_of :: "json \<Rightarrow> idb_key option" where
  "key_of (JNum n) = Some (KNum n)"
| "key_of (JStr s) = Some (KStr s)"
| "key_of v = None"

text \<open>The key of a record at a key path: none if the property is absent or no valid key.\<close>

fun key_at :: "string \<Rightarrow> json \<Rightarrow> idb_key option" where
  "key_at k (JObj kvs) = (case map_of kvs k of None \<Rightarrow> None | Some v \<Rightarrow> key_of v)"
| "key_at k v = None"

record idb_world =
  page :: world
  table :: "json list"
  closed :: bool

text \<open>
  \<^verbatim>\<open>bulkAdd\<close>. The primary key is in-line and not generated, so a record without a valid
  key at \<^verbatim>\<open>id\<close> makes the whole call fail with a \<^verbatim>\<open>DataError\<close>, and nothing is added.
  Otherwise every record is added in turn: one with the primary key of a record already
  there fails and the others are still added; \<open>bulk_add\<close> counts these failures, and
  any of them makes the call fail with a \<^verbatim>\<open>BulkError\<close>.
\<close>

fun bulk_add :: "json list \<Rightarrow> json list \<Rightarrow> json list \<times> nat" where
  "bulk_add [] tbl = (tbl, 0)"
| "bulk_add (r # rs) tbl =
     (if key_at ''id'' r \<in> set (map (key_at ''id'') tbl)
      then (let (tbl1, n) = bulk_add rs tbl in (tbl1, Suc n))
      else bulk_add rs (tbl @ [r]))"

definition bulkAdd :: "json list \<Rightarrow> idb_world \<Rightarrow> (js_error + unit) \<times> idb_world" where
  "bulkAdd rs w =
     (if closed w then (Inl DatabaseClosedError, w)
      else if list_ex (\<lambda>r. key_at ''id'' r = None) rs then (Inl DataError, w)
      else let (tbl, failures) = bulk_add rs (table w)
           in (if failures = 0 then Inr () else Inl BulkError, w\<lparr>table := tbl\<rparr>))"


text \<open>
  \<^verbatim>\<open>orderBy(k).reverse().toArray()\<close>: the records that have a key at \<open>k\<close>, by that key
  and then by primary key, last first.
\<close>

definition orderBy_reverse :: "string \<Rightarrow> idb_world \<Rightarrow> js_error + json list" where
  "orderBy_reverse k w =
     (if closed w then Inl DatabaseClosedError
      else Inr (rev (sort_key (\<lambda>r. (key_at k r, key_at ''id'' r))
                       (filter (\<lambda>r. key_at k r \<noteq> None) (table w)))))"

definition MIGRATION_DONE_KEY :: string where
  "MIGRATION_DONE_KEY = ''dockeri_indexeddb_migration_done''"

text \<open>\<^verbatim>\<open>loadConversationsFromLocalStorage\<close>: as the store on localStorage reads, writing nothing.\<close>

definition loadConversationsFromLocalStorage_try ::
  "nat \<Rightarrow> (nat \<Rightarrow> string) \<Rightarrow> world \<Rightarrow> js_error + json list option" where
  "loadConversationsFromLocalStorage_try now fallbackTitle w =
     bind_err (bind_err (getItem CONV_STORAGE_KEY (localStorage w)) read_current)
       (\<lambda>current. case current of
          Some data \<Rightarrow> Inr (Some data)
        | None \<Rightarrow>
            bind_err (getItem OLD_CHAT_KEY (localStorage w))
              (\<lambda>oldRaw.
                 if truthy_raw oldRaw then
                   bind_err (JSON_parse (the oldRaw))
                     (\<lambda>msgs.
                        let id = toString now in
                        bind_err (firstUser_of msgs)
                          (\<lambda>firstUser.
                             bind_err (title_of firstUser (fallbackTitle (parseInt id)))
                               (\<lambda>title.
                                  Inr (Some [JObj [(''id'', JStr id), (''title'', title),
                                                   (''messages'', msgs),
                                                   (''createdAt'', JStr id)]]))))
                 else Inr None))"

definition loadConversationsFromLocalStorage ::
  "nat \<Rightarrow> (nat \<Rightarrow> string) \<Rightarrow> world \<Rightarrow> json list \<times> world" where
  "loadConversationsFromLocalStorage now fallbackTitle w =
     (case loadConversationsFromLocalStorage_try now fallbackTitle w of
        Inl e \<Rightarrow> ([], w\<lparr>console := console w @ [WarnLoadFailed e]\<rparr>)
      | Inr None \<Rightarrow> ([], w)
      | Inr (Some data) \<Rightarrow> (data, w))"

text \<open>
  \<^verbatim>\<open>migrateFromLocalStorage\<close>. The test of the done flag is outside the \<^verbatim>\<open>try\<close>, so a
  failing \<^verbatim>\<open>getItem\<close> leaves the function as an exception; what the \<^verbatim>\<open>try\<close> throws is
  logged and dropped, and then the done flag is not set.
\<close>

definition log_error :: "js_error \<Rightarrow> idb_world \<Rightarrow> idb_world" where
  "log_error e w = w\<lparr>page := (page w)\<lparr>console := console (page w) @ [ErrorLogged e]\<rparr>\<rparr>"

definition migrateFromLocalStorage ::
  "nat \<Rightarrow> (nat \<Rightarrow> string) \<Rightarrow> idb_world \<Rightarrow> (js_error + unit) \<times> idb_world" where
  "migrateFromLocalStorage now fallbackTitle w =
     (case getItem MIGRATION_DONE_KEY (localStorage (page w)) of
        Inl e \<Rightarrow> (Inl e, w)
      | Inr flag \<Rightarrow>
          if truthy_raw flag then (Inr (), w)
          else
            let (existingConversations, p1) = loadConversationsFromLocalStorage now fallbackTitle (page w);
                w1 = w\<lparr>page := p1\<rparr>;
                (added, w2) = (if length existingConversations > 0
                               then bulkAdd existingConversations w1 else (Inr (), w1))
            in (case added of
                  Inl e \<Rightarrow> (Inr (), log_error e w2)
                | Inr _ \<Rightarrow>
                    (case setItem MIGRATION_DONE_KEY (Json (JBool True)) (localStorage (page w2)) of
                       Inl e \<Rightarrow> (Inr (), log_error e w2)
                     | Inr ls \<Rightarrow> (Inr (), w2\<lparr>page := (page w2)\<lparr>localStorage := ls\<rparr>\<rparr>))))"


definition idb_loadConversations ::
  "nat \<Rightarrow> (nat \<Rightarrow> string) \<Rightarrow> idb_world \<Rightarrow> json list \<times> idb_world" where
  "idb_loadConversations now fallbackTitle w =
     (case migrateFromLocalStorage now fallbackTitle w of
        (Inl e, w1) \<Rightarrow> ([], log_error e w1)
      | (Inr _, w1) \<Rightarrow>
          (case orderBy_reverse ''createdAt'' w1 of
             Inl e \<Rightarrow> ([], log_error e w1)
           | Inr convs \<Rightarrow> (convs, w1)))"

text \<open>Two conversations and a page on which the migration to IndexedDB is done.\<close>

definition conv_a :: conversation where
  "conv_a = \<lparr>cid = ''1'', title = ''a'', messages = [], createdAt = ''1''\<rparr>"

definition conv_b :: conversation where
  "conv_b = \<lparr>cid = ''2'', title = ''b'', messages = [], createdAt = ''2''\<rparr>"

definition migrated_page :: world where
  "migrated_page =
     \<lparr>localStorage = \<lparr>items = [MIGRATION_DONE_KEY \<mapsto> Json (JBool True)],
                       denied = False, full = False\<rparr>,
      console = []\<rparr>"

text \<open>A page whose storage holds the list of the first conversation and has no room left.\<close>

definition stale_page :: world where
  "stale_page =
     \<lparr>localStorage =
        \<lparr>items = [CONV_STORAGE_KEY \<mapsto> Json (conversations_json [conv_a])],
         denied = False, full = True\<rparr>,
      console = []\<rparr>"

section \<open>Properties of the encodings\<close>

lemma role_name_inj: "role_name a = role_name b \<Longrightarrow> a = b"
  by (cases a; cases b) auto

lemma icon_name_inj: "icon_name a = icon_name b \<Longrightarrow> a = b"
  by (cases a; cases b) auto

lemma status_name_inj: "status_name a = status_name b \<Longrightarrow> a = b"
  by (cases a; cases b) auto

lemma part_json_inj: "part_json p = part_json q \<Longrightarrow> p = q"
  by (cases p; cases q)
     (auto simp: part_json_def opt_prop_def split: option.splits dest: icon_name_inj)

lemma info_json_inj: "info_json p = info_json q \<Longrightarrow> p = q"
  by (cases p; cases q)
     (auto simp: info_json_def opt_prop_def split: option.splits dest: status_name_inj)

lemma parts_json_eq [simp]: "map part_json ps = map part_json qs \<longleftrightarrow> ps = qs"
  by (rule inj_map_eq_map) (auto simp: inj_on_def dest: part_json_inj)

lemma message_json_inj: "message_json p = message_json q \<Longrightarrow> p = q"
  by (cases p; cases q)
     (auto simp: message_json_def opt_prop_def split: option.splits
           dest: role_name_inj info_json_inj)

lemma messages_json_eq [simp]: "map message_json ps = map message_json qs \<longleftrightarrow> ps = qs"
  by (rule inj_map_eq_map) (auto simp: inj_on_def dest: message_json_inj)

lemma conversation_json_inj: "conversation_json p = conversation_json q \<Longrightarrow> p = q"
  by (cases p; cases q) (auto simp: conversation_json_def)

lemma conversations_json_eq [simp]:
  "map conversation_json cs = map conversation_json ds \<longleftrightarrow> cs = ds"
  by (rule inj_map_eq_map) (auto simp: inj_on_def dest: conversation_json_inj)

lemma digit_val_digit_char [simp]: "d < 10 \<Longrightarrow> digit_val (digit_char d) = d"
  by (simp add: digit_val_def digit_char_def)

lemma parseInt_snoc: "parseInt (s @ [c]) = 10 * parseInt s + digit_val c"
  by (simp add: parseInt_def)

lemma parseInt_toString [simp]: "parseInt (toString n) = n"
proof (induction n rule: toString.induct)
  case (1 n)
  show ?case
  proof (cases "n < 10")
    case True
    then show ?thesis by (simp add: toString.simps[of n] parseInt_def)
  next
    case False
    with 1 show ?thesis
      by (simp add: toString.simps[of n] parseInt_snoc)
  qed
qed

section \<open>Properties of the localStorage store\<close>

lemma keys_distinct [simp]:
  "CONV_STORAGE_KEY \<noteq> OLD_CHAT_KEY" "OLD_CHAT_KEY \<noteq> CONV_STORAGE_KEY"
  by (simp_all add: CONV_STORAGE_KEY_def OLD_CHAT_KEY_def)

lemma load_current:
  assumes "\<not> denied ls" and "items ls CONV_STORAGE_KEY = Some (Json (JArr xs))"
  shows "loadConversations now ft \<lparr>localStorage = ls, console = lg\<rparr>
         = (xs, \<lparr>localStorage = ls, console = lg\<rparr>)"
  using assms
  by (simp add: loadConversations_def loadConversations_try_def getItem_def read_current_def)

lemma save_ok:
  assumes "\<not> denied (localStorage w)" and "\<not> full (localStorage w)"
  shows "saveConversations v w =
         (Inr (), w\<lparr>localStorage :=
                      (localStorage w)\<lparr>items := (items (localStorage w))(CONV_STORAGE_KEY \<mapsto> Json v)\<rparr>\<rparr>)"
  using assms by (simp add: saveConversations_def setItem_def JSON_stringify_def)

lemma save_failed:
  assumes "denied (localStorage w) \<or> full (localStorage w)"
  shows "\<exists>e. saveConversations v w = (Inr (), w\<lparr>console := console w @ [WarnSaveFailed e]\<rparr>)"
  using assms by (auto simp: saveConversations_def setItem_def)

lemma get_role_message [simp]:
  "get_prop ''role'' (message_json m) = Inr (Some (JStr (role_name (role m))))"
  by (simp add: message_json_def)

lemma role_name_user [simp]: "role_name r = ''user'' \<longleftrightarrow> r = User"
  by (cases r) auto

lemma find_user_messages:
  "find_user (map message_json msgs)
   = Inr (map_option message_json (find (\<lambda>m. role m = User) msgs))"
  by (induction msgs) auto

lemma firstUser_of_messages:
  "firstUser_of (JArr (map message_json msgs))
   = Inr (map_option message_json (find (\<lambda>m. role m = User) msgs))"
  by (simp add: firstUser_of_def find_user_messages)

lemma title_of_message:
  "title_of (map_option message_json (find (\<lambda>m. role m = User) msgs)) fb
   = Inr (JStr (spec_title msgs fb))"
  by (auto simp: title_of_def spec_title_def message_json_def part_json_def
           split: option.splits list.splits)

lemma migrate_legacy:
  "migrate_old now ft (Json (JArr (map message_json msgs)))
     \<lparr>localStorage = legacy_only msgs, console = lg\<rparr>
   = (Inr (map conversation_json (spec_migrated msgs now ft)),
      \<lparr>localStorage = current_only (spec_migrated msgs now ft), console = lg\<rparr>)"
  by (simp add: migrate_old_def firstUser_of_messages title_of_message Let_def save_ok
        legacy_only_def current_only_def spec_migrated_def conversations_json_def
        removeItem_def conversation_json_def fun_upd_twist)

lemma load_legacy:
  "loadConversations now ft \<lparr>localStorage = legacy_only msgs, console = lg\<rparr>
   = (map conversation_json (spec_migrated msgs now ft),
      \<lparr>localStorage = current_only (spec_migrated msgs now ft), console = lg\<rparr>)"
proof -
  have a: "getItem CONV_STORAGE_KEY (legacy_only msgs) = Inr None"
    by (simp add: getItem_def legacy_only_def)
  have b: "getItem OLD_CHAT_KEY (legacy_only msgs)
           = Inr (Some (Json (JArr (map message_json msgs))))"
    by (simp add: getItem_def legacy_only_def)
  show ?thesis
    by (simp add: loadConversations_def loadConversations_try_def a b read_current_def
          migrate_legacy)
qed


lemma script_load_current:
  assumes "\<not> denied ls" and "items ls CONV_STORAGE_KEY = Some (Json (JArr xs))"
  shows "script_loadConversations now ft cv \<lparr>localStorage = ls, console = lg\<rparr>
         = (xs, \<lparr>localStorage = ls, console = lg\<rparr>)"
  using assms
  by (simp add: script_loadConversations_def script_loadConversations_try_def getItem_def)

lemma script_migrate_legacy:
  "script_migrate now ft (Json (JArr (map message_json msgs))) cv
     \<lparr>localStorage = legacy_only msgs, console = lg\<rparr>
   = (Inr (), map conversation_json (spec_migrated msgs now ft),
      \<lparr>localStorage = current_only (spec_migrated msgs now ft), console = lg\<rparr>)"
  by (simp add: script_migrate_def firstUser_of_messages title_of_message Let_def save_ok
        legacy_only_def current_only_def spec_migrated_def conversations_json_def
        removeItem_def conversation_json_def fun_upd_twist)

lemma script_load_legacy:
  "script_loadConversations now ft cv \<lparr>localStorage = legacy_only msgs, console = lg\<rparr>
   = (map conversation_json (spec_migrated msgs now ft),
      \<lparr>localStorage = current_only (spec_migrated msgs now ft), console = lg\<rparr>)"
proof -
  have a: "getItem CONV_STORAGE_KEY (legacy_only msgs) = Inr None"
    by (simp add: getItem_def legacy_only_def)
  have b: "getItem OLD_CHAT_KEY (legacy_only msgs)
           = Inr (Some (Json (JArr (map message_json msgs))))"
    by (simp add: getItem_def legacy_only_def)
  show ?thesis
    by (simp add: script_loadConversations_def script_loadConversations_try_def a b
          script_migrate_legacy)
qed

text \<open>
  Migration on a storage area that can be written. On an area that holds a legacy record
  only, the first load returns the one-element list of the specification (title from the
  first user message's first part, or the fallback), leaves it under the current key and
  the legacy key absent; a second load, at any later time, returns the same list and
  changes nothing. And whenever the current key holds an array, even the empty one, load
  returns that array and leaves the storage as it is, whatever the legacy key holds. The
  same holds of the static script's load, which leaves the list in its variable.
\<close>

lemma load_migrates_once:
  "loadConversations now ft \<lparr>localStorage = legacy_only msgs, console = lg\<rparr>
     = (map conversation_json (spec_migrated msgs now ft),
        \<lparr>localStorage = current_only (spec_migrated msgs now ft), console = lg\<rparr>)
   \<and> loadConversations now' ft'
        \<lparr>localStorage = current_only (spec_migrated msgs now ft), console = lg\<rparr>
     = (map conversation_json (spec_migrated msgs now ft),
        \<lparr>localStorage = current_only (spec_migrated msgs now ft), console = lg\<rparr>)
   \<and> length (spec_migrated msgs now ft) = 1
   \<and> items (current_only (spec_migrated msgs now ft)) OLD_CHAT_KEY = None
   \<and> (\<not> denied ls \<and> items ls CONV_STORAGE_KEY = Some (Json (JArr xs)) \<longrightarrow>
        loadConversations now ft \<lparr>localStorage = ls, console = lg\<rparr>
        = (xs, \<lparr>localStorage = ls, console = lg\<rparr>))
   \<and> script_loadConversations now ft cv \<lparr>localStorage = legacy_only msgs, console = lg\<rparr>
     = (map conversation_json (spec_migrated msgs now ft),
        \<lparr>localStorage = current_only (spec_migrated msgs now ft), console = lg\<rparr>)
   \<and> script_loadConversations now' ft' cv'
        \<lparr>localStorage = current_only (spec_migrated msgs now ft), console = lg\<rparr>
     = (map conversation_json (spec_migrated msgs now ft),
        \<lparr>localStorage = current_only (spec_migrated msgs now ft), console = lg\<rparr>)
   \<and> (\<not> denied ls \<and> items ls CONV_STORAGE_KEY = Some (Json (JArr xs)) \<longrightarrow>
        script_loadConversations now ft cv \<lparr>localStorage = ls, console = lg\<rparr>
        = (xs, \<lparr>localStorage = ls, console = lg\<rparr>))"
proof -
  have cur: "\<not> denied (current_only (spec_migrated msgs now ft))"
    "items (current_only (spec_migrated msgs now ft)) CONV_STORAGE_KEY
     = Some (Json (JArr (map conversation_json (spec_migrated msgs now ft))))"
    by (simp_all add: current_only_def conversations_json_def)
  have "loadConversations now' ft'
          \<lparr>localStorage = current_only (spec_migrated msgs now ft), console = lg\<rparr>
        = (map conversation_json (spec_migrated msgs now ft),
           \<lparr>localStorage = current_only (spec_migrated msgs now ft), console = lg\<rparr>)"
    using cur by (rule load_current)
  moreover have "script_loadConversations now' ft' cv'
          \<lparr>localStorage = current_only (spec_migrated msgs now ft), console = lg\<rparr>
        = (map conversation_json (spec_migrated msgs now ft),
           \<lparr>localStorage = current_only (spec_migrated msgs now ft), console = lg\<rparr>)"
    using cur by (rule script_load_current)
  moreover have "length (spec_migrated msgs now ft) = 1"
    by (simp add: spec_migrated_def)
  moreover have "items (current_only (spec_migrated msgs now ft)) OLD_CHAT_KEY = None"
    by (simp add: current_only_def)
  ultimately show ?thesis
    using load_legacy [of now ft msgs lg] load_current [of ls xs now ft lg]
      script_load_legacy [of now ft cv msgs lg] script_load_current [of ls xs now ft cv lg]
    by simp
qed

lemma load_console:
  "fst (loadConversations now ft (w\<lparr>console := lg\<rparr>)) = fst (loadConversations now ft w)"
  by (auto simp: loadConversations_def loadConversations_try_def getItem_def read_current_def
        migrate_old_def Let_def saveConversations_def setItem_def removeItem_def
      split: sum.splits option.splits prod.splits if_splits)

lemma save_failed_state:
  assumes "denied (localStorage w) \<or> full (localStorage w)"
  shows "fst (saveConversations v w) = Inr ()
       \<and> localStorage (snd (saveConversations v w)) = localStorage w
       \<and> fst (loadConversations now ft (snd (saveConversations v w)))
         = fst (loadConversations now ft w)"
  using save_failed [OF assms, of v] by (auto simp: load_console)

text \<open>
  Claim C4 (migration idempotence) on a storage area that holds a legacy record only and
  cannot be written. \<^verbatim>\<open>saveConversations\<close> catches the error of \<^verbatim>\<open>setItem\<close> and
  returns normally, and the migration goes on to remove the legacy key: the first load
  returns the migrated list, leaves nothing under the current key and the legacy key
  absent, so the second load returns the empty list. The static script's load, run again
  in a new page (its variable empty), does the same. The claim says that the first load
  persists the list and that the second returns the identical list.
\<close>

theorem migration_lost_when_save_fails:
  "loadConversations 7 (\<lambda>n. ''chat'') legacy_full
     = (map conversation_json
          [\<lparr>cid = ''7'', title = ''hi'',
            messages = [\<lparr>role = User, parts = [\<lparr>ptext = ''hi'', icon = None\<rparr>],
                         uploadStatus = None\<rparr>],
            createdAt = ''7''\<rparr>],
        \<lparr>localStorage = \<lparr>items = Map.empty, denied = False, full = True\<rparr>,
         console = [WarnSaveFailed QuotaExceededError]\<rparr>)
   \<and> loadConversations 8 (\<lambda>n. ''chat'')
        \<lparr>localStorage = \<lparr>items = Map.empty, denied = False, full = True\<rparr>,
         console = [WarnSaveFailed QuotaExceededError]\<rparr>
     = ([], \<lparr>localStorage = \<lparr>items = Map.empty, denied = False, full = True\<rparr>,
             console = [WarnSaveFailed QuotaExceededError]\<rparr>)
   \<and> script_loadConversations 7 (\<lambda>n. ''chat'') [] legacy_full
     = (map conversation_json
          [\<lparr>cid = ''7'', title = ''hi'',
            messages = [\<lparr>role = User, parts = [\<lparr>ptext = ''hi'', icon = None\<rparr>],
                         uploadStatus = None\<rparr>],
            createdAt = ''7''\<rparr>],
        \<lparr>localStorage = \<lparr>items = Map.empty, denied = False, full = True\<rparr>,
         console = [WarnSaveFailed QuotaExceededError]\<rparr>)
   \<and> script_loadConversations 8 (\<lambda>n. ''chat'') []
        \<lparr>localStorage = \<lparr>items = Map.empty, denied = False, full = True\<rparr>,
         console = [WarnSaveFailed QuotaExceededError]\<rparr>
     = ([], \<lparr>localStorage = \<lparr>items = Map.empty, denied = False, full = True\<rparr>,
             console = [WarnSaveFailed QuotaExceededError]\<rparr>)"
  by (simp add: loadConversations_def loadConversations_try_def legacy_full_def getItem_def
        read_current_def migrate_old_def firstUser_of_def title_of_def Let_def
        toString.simps digit_char_def char_of_eq_iff
        saveConversations_def setItem_def removeItem_def conversation_json_def message_json_def
        part_json_def script_loadConversations_def script_loadConversations_try_def
        script_migrate_def)

text \<open>
  Claim C6 (round trip), as the code has it. When the write succeeds, saving the list
  \<open>C\<close> and then loading returns the objects of \<open>C\<close>, in the order of \<open>C\<close>: none is
  dropped, duplicated or altered (the objects determine the conversations, field by
  field), and the order is not changed. When the write fails (the storage is denied or
  full), save still returns normally, the storage is as it was, and load returns what it
  would have returned without the save.
\<close>

theorem save_load_roundtrip:
  "(\<not> denied (localStorage w) \<and> \<not> full (localStorage w) \<longrightarrow>
      fst (loadConversations now ft (snd (saveConversations (conversations_json C) w)))
      = map conversation_json C)
   \<and> (\<forall>C'. map conversation_json C' = map conversation_json C \<longrightarrow> C' = C)
   \<and> (denied (localStorage w) \<or> full (localStorage w) \<longrightarrow>
        fst (saveConversations (conversations_json C) w) = Inr ()
        \<and> localStorage (snd (saveConversations (conversations_json C) w)) = localStorage w
        \<and> fst (loadConversations now ft (snd (saveConversations (conversations_json C) w)))
          = fst (loadConversations now ft w))"
proof -
  obtain ls lg where w: "w = \<lparr>localStorage = ls, console = lg\<rparr>"
    by (cases w) auto
  have "fst (loadConversations now ft (snd (saveConversations (conversations_json C) w)))
        = map conversation_json C"
    if "\<not> denied (localStorage w)" "\<not> full (localStorage w)"
    using that unfolding w by (simp add: save_ok conversations_json_def load_current)
  moreover have "\<forall>C'. map conversation_json C' = map conversation_json C \<longrightarrow> C' = C"
    by (simp add: conversations_json_def)
  ultimately show ?thesis
    using save_failed_state [of w "conversations_json C" now ft] by blast
qed

theorem save_load_roundtrip_witness:
  "fst (loadConversations 9 (\<lambda>n. ''chat'')
         (snd (saveConversations (conversations_json [conv_b, conv_a])
                 \<lparr>localStorage = \<lparr>items = Map.empty, denied = False, full = False\<rparr>,
                  console = []\<rparr>)))
   = map conversation_json [conv_b, conv_a]
   \<and> fst (saveConversations (conversations_json [conv_b]) stale_page) = Inr ()
   \<and> fst (loadConversations 9 (\<lambda>n. ''chat'')
           (snd (saveConversations (conversations_json [conv_b]) stale_page)))
     = map conversation_json [conv_a]"
  using save_load_roundtrip
    [of "\<lparr>localStorage = \<lparr>items = Map.empty, denied = False, full = False\<rparr>, console = []\<rparr>"
        9 "\<lambda>n. ''chat''" "[conv_b, conv_a]"]
    save_load_roundtrip [of stale_page 9 "\<lambda>n. ''chat''" "[conv_b]"]
  by (simp add: stale_page_def load_current conversations_json_def)

text \<open>
  Claim C6 as stated fails. On a full storage that holds the list of the first
  conversation, saving the list of the second returns normally and the load that follows
  returns the first conversation, not the second. And on a storage that can be written,
  a list saved oldest first is loaded oldest first: the order is not normalized.
\<close>

theorem failed_save_keeps_old_list_counterexample:
  "fst (saveConversations (conversations_json [conv_b]) stale_page) = Inr ()
   \<and> fst (loadConversations 9 (\<lambda>n. ''chat'')
           (snd (saveConversations (conversations_json [conv_b]) stale_page)))
     = map conversation_json [conv_a]
   \<and> set (map conversation_json [conv_a]) \<noteq> set (map conversation_json [conv_b])
   \<and> fst (loadConversations 9 (\<lambda>n. ''chat'')
           (snd (saveConversations (conversations_json [conv_a, conv_b])
                   \<lparr>localStorage = \<lparr>items = Map.empty, denied = False, full = False\<rparr>,
                    console = []\<rparr>)))
     = map conversation_json [conv_a, conv_b]
   \<and> createdAt conv_a < createdAt conv_b"
  by (simp add: stale_page_def saveConversations_def setItem_def load_current
        conversations_json_def JSON_stringify_def conv_a_def conv_b_def conversation_json_def
        less_char_def)

section \<open>Decimal strings and their order\<close>

lemma lex_num:
  fixes a b p q N :: nat
  assumes "p < N" and "q < N"
  shows "(a * N + p < b * N + q) \<longleftrightarrow> (a < b \<or> (a = b \<and> p < q))"
proof (cases a b rule: linorder_cases)
  case less
  then have "Suc a * N \<le> b * N" by (intro mult_le_mono1) simp
  with assms less show ?thesis by simp
next
  case equal
  then show ?thesis by simp
next
  case greater
  then have "Suc b * N \<le> a * N" by (intro mult_le_mono1) simp
  with assms greater show ?thesis by simp
qed

lemma digit_char_less: "a < 10 \<Longrightarrow> b < 10 \<Longrightarrow> digit_char a < digit_char b \<longleftrightarrow> a < b"
  by (simp add: digit_char_def less_char_def)

lemma digit_char_eq: "a < 10 \<Longrightarrow> b < 10 \<Longrightarrow> digit_char a = digit_char b \<longleftrightarrow> a = b"
  by (metis digit_val_digit_char)

lemma parseInt_Cons: "parseInt (c # s) = digit_val c * 10 ^ length s + parseInt s"
proof (induction s arbitrary: c rule: rev_induct)
  case Nil
  then show ?case by (simp add: parseInt_def)
next
  case (snoc x xs)
  have "parseInt (c # xs @ [x]) = 10 * parseInt (c # xs) + digit_val x"
    using parseInt_snoc [of "c # xs" x] by simp
  then show ?case by (simp add: snoc parseInt_snoc algebra_simps)
qed

lemma parseInt_bound: "\<forall>c\<in>set s. is_digit c \<Longrightarrow> parseInt s < 10 ^ length s"
proof (induction s)
  case Nil
  then show ?case by (simp add: parseInt_def)
next
  case (Cons c s)
  then obtain d where d: "d < 10" "c = digit_char d" by (auto simp: is_digit_def)
  have "parseInt s < 10 ^ length s" using Cons by simp
  moreover have "d * 10 ^ length s \<le> 9 * 10 ^ length s" using d by simp
  ultimately have "d * 10 ^ length s + parseInt s < 9 * 10 ^ length s + 10 ^ length s"
    by (rule add_le_less_mono [rotated])
  then show ?case using d by (simp add: parseInt_Cons)
qed

lemma digits_less:
  assumes "length xs = length ys" and "\<forall>c\<in>set xs. is_digit c" and "\<forall>c\<in>set ys. is_digit c"
  shows "xs < ys \<longleftrightarrow> parseInt xs < parseInt ys"
  using assms
proof (induction xs ys rule: list_induct2)
  case Nil
  then show ?case by simp
next
  case (Cons x xs y ys)
  obtain a b where ab: "a < 10" "x = digit_char a" "b < 10" "y = digit_char b"
    using Cons.prems by (auto simp: is_digit_def)
  have px: "parseInt xs < 10 ^ length ys" using parseInt_bound [of xs] Cons by simp
  have py: "parseInt ys < 10 ^ length ys" using parseInt_bound [of ys] Cons by simp
  have IH: "xs < ys \<longleftrightarrow> parseInt xs < parseInt ys" using Cons by simp
  show ?case
    using ab IH lex_num [OF px py, of a b] Cons.hyps
    by (simp add: parseInt_Cons digit_char_less digit_char_eq)
qed

lemma toString_digits: "\<forall>c\<in>set (toString n). is_digit c"
proof (induction n rule: toString.induct)
  case (1 n)
  show ?case
  proof (cases "n < 10")
    case True
    then show ?thesis by (auto simp: toString.simps [of n] is_digit_def)
  next
    case False
    then have "\<forall>c\<in>set (toString (n div 10)). is_digit c" using 1 by simp
    moreover have "is_digit (digit_char (n mod 10))"
      by (auto simp: is_digit_def intro!: exI [of _ "n mod 10"])
    ultimately show ?thesis using False by (simp add: toString.simps [of n])
  qed
qed

lemma toString_less:
  "length (toString a) = length (toString b) \<Longrightarrow> toString a < toString b \<longleftrightarrow> a < b"
  using digits_less [of "toString a" "toString b"] toString_digits by simp




section \<open>Properties of the session controller\<close>



lemma cid_with_messages [simp]: "cid ` set (with_messages i ctx cs) = cid ` set cs"
  by (induction cs) (auto simp: with_messages_def)

lemma map_cid_with_messages [simp]: "map cid (with_messages i ctx cs) = map cid cs"
  by (induction cs) (auto simp: with_messages_def)


lemma persist_fields [simp]:
  "currentConversationId (persist cs s) = currentConversationId s"
  "chatContext (persist cs s) = chatContext s"
  "conversations (persist cs s) = cs"
  "promptValue (persist cs s) = promptValue s"
  by (simp_all add: persist_def)

lemma writable_persist [simp]: "writable (persist cs s) = writable s"
  by (auto simp: persist_def writable_def saveConversations_def setItem_def split: sum.splits)

lemma writable_upd [simp]:
  "writable (s\<lparr>promptValue := p\<rparr>) = writable s"
  "writable (s\<lparr>chatContext := c\<rparr>) = writable s"
  "writable (s\<lparr>conversations := cs\<rparr>) = writable s"
  "writable (s\<lparr>currentConversationId := i\<rparr>) = writable s"
  "writable (s\<lparr>browser := (browser s)\<lparr>console := lg\<rparr>\<rparr>) = writable s"
  by (simp_all add: writable_def)

lemma persisted_upd [simp]:
  "persisted (s\<lparr>promptValue := p\<rparr>) = persisted s"
  "persisted (s\<lparr>chatContext := c\<rparr>) = persisted s"
  "persisted (s\<lparr>conversations := cs\<rparr>) = persisted s"
  "persisted (s\<lparr>currentConversationId := i\<rparr>) = persisted s"
  by (simp_all add: persisted_def)






lemma chunks_fields [simp]:
  "writable (foldl (\<lambda>st chunk. sendMessage_chunk fl chunk st) s xs) = writable s"
  "persisted (foldl (\<lambda>st chunk. sendMessage_chunk fl chunk st) s xs) = persisted s"
  "currentConversationId (foldl (\<lambda>st chunk. sendMessage_chunk fl chunk st) s xs)
   = currentConversationId s"
  "conversations (foldl (\<lambda>st chunk. sendMessage_chunk fl chunk st) s xs) = conversations s"
  by (induction xs arbitrary: s) (simp_all add: sendMessage_chunk_def)




lemma fresh_app_ok:
  "writable (fresh_app ''hi'')" "trim (promptValue (fresh_app ''hi'')) \<noteq> []"
  "falsy_id (currentConversationId (fresh_app ''hi''))"
  by (simp_all add: fresh_app_def writable_def trim_def is_space_def)


lemma persisted_console [simp]:
  "persisted (s\<lparr>browser := (browser s)\<lparr>console := lg\<rparr>\<rparr>) = persisted s"
  by (simp add: persisted_def)









lemma chunks_buffer:
  "chatContext (foldl (\<lambda>st chunk. sendMessage_chunk fl chunk st) s xs)
   = (if xs = [] then chatContext s else newContext fl @ [text_message Model (last xs)])"
  by (induction xs arbitrary: s) (simp_all add: sendMessage_chunk_def)








lemma migrate_ids:
  "fst (migrate_old now ft oldRaw w) = Inr convs \<Longrightarrow>
   \<exists>t msgs. convs = [JObj [(''id'', JStr (toString now)), (''title'', t),
                           (''messages'', msgs), (''createdAt'', JStr (toString now))]]"
  by (auto simp: migrate_old_def Let_def split: sum.splits)

lemma start_mints:
  "falsy_id (currentConversationId s) \<Longrightarrow> trim (promptValue s) \<noteq> [] \<Longrightarrow>
   \<exists>c. conversations (snd (sendMessage_start now s)) = c # conversations s
       \<and> cid c = toString now \<and> createdAt c = toString now"
  by (simp add: sendMessage_start_def Let_def)







text \<open>
  Claim C10, as the code has it. A conversation minted by a Send with no active
  conversation, and one produced by the migration, has \<open>createdAt\<close> equal to \<open>id\<close>, both
  the decimal numeral of the clock reading (which \<open>parseInt\<close> reads back). For two such
  numerals of the same length, the order of the strings is the order of the numbers.
\<close>

theorem created_ids_are_decimal_timestamps:
  "(falsy_id (currentConversationId s) \<and> trim (promptValue s) \<noteq> [] \<longrightarrow>
      (\<exists>c. conversations (snd (sendMessage_start now s)) = c # conversations s
          \<and> cid c = toString now \<and> createdAt c = toString now))
   \<and> (fst (migrate_old now ft oldRaw w) = Inr convs \<longrightarrow>
      (\<exists>t msgs. convs = [JObj [(''id'', JStr (toString now)), (''title'', t),
                               (''messages'', msgs), (''createdAt'', JStr (toString now))]]))
   \<and> parseInt (toString now) = now
   \<and> (length (toString a) = length (toString b) \<longrightarrow>
        (toString a < toString b \<longleftrightarrow> a < b))"
  using start_mints [of s now] migrate_ids [of now ft oldRaw w convs] toString_less [of a b]
  by simp

theorem created_ids_are_decimal_timestamps_witness:
  "(\<exists>c. conversations (snd (sendMessage_start 7 (fresh_app ''hi''))) = [c]
       \<and> cid c = toString 7 \<and> createdAt c = toString 7)
   \<and> (toString 1700000000123 < toString 1700000000124)"
  using created_ids_are_decimal_timestamps
    [of "fresh_app ''hi''" 7 "\<lambda>n. ''chat''" "Json (JArr [])"
        "\<lparr>localStorage = \<lparr>items = Map.empty, denied = False, full = False\<rparr>, console = []\<rparr>"
        "[JObj [(''id'', JStr (toString 7)), (''title'', JStr ''chat''),
                (''messages'', JArr []), (''createdAt'', JStr (toString 7))]]"
        1700000000123 1700000000124]
  by (simp add: fresh_app_ok) (simp add: fresh_app_def toString.simps)

text \<open>
  Claim C10 as stated fails in its last part: the numeral of a later time can be the
  smaller string.
\<close>

theorem decimal_order_counterexample:
  "toString 10000000000000 < toString 9999999999999 \<and> (9999999999999 :: nat) < 10000000000000"
  by (simp add: toString.simps digit_char_def less_char_def)

section \<open>Properties of the task pollers\<close>

lemma timeout_never_early:
  "pollUploadStatus_loop rs iv start t cbs = Some (Thrown PollingTimeout, cbs', t')
   \<Longrightarrow> maxTimeout < t' - start"
proof (induction rs arbitrary: iv t cbs)
  case Nil
  then show ?case by simp
next
  case (Cons r rs)
  then show ?case
    by (auto simp: Let_def split: request_outcome.splits if_splits)
qed

lemma pending_answer:
  "pending r \<Longrightarrow> outcome r = Answer (answer_of r) \<and> \<not> terminal (answer_of r)"
  by (auto simp: pending_def answer_of_def)

lemma pending_not_timeout: "pending r \<Longrightarrow> \<not> is_timeout_info (answer_of r)"
  by (auto simp: pending_def answer_of_def is_timeout_info_def terminal_def)

text \<open>
  Every round advances the clock by 2000 ms at least, so a session whose requests are all
  answered with a non-terminal status ends in the timeout once the rounds suffice.
\<close>

lemma poll_times_out:
  assumes "\<forall>r\<in>set rs. pending r" and "2000 \<le> iv" and "rs \<noteq> []"
    and "start + maxTimeout < t + 2000 * (length rs - 1)"
  shows "\<exists>k t'. k < length rs \<and>
           pollUploadStatus_loop rs iv start t cbs
           = Some (Thrown PollingTimeout,
                   cbs @ map answer_of (take (Suc k) rs) @ [timeoutInfo (answer_of (rs ! k))],
                   t')"
  using assms
proof (induction rs arbitrary: iv t cbs)
  case Nil
  then show ?case by simp
next
  case (Cons r rs)
  have r: "outcome r = Answer (answer_of r)" "\<not> terminal (answer_of r)"
    using Cons.prems(1) pending_answer by auto
  show ?case
  proof (cases "t + latency r - start > maxTimeout")
    case True
    with r show ?thesis
      by (intro exI [of _ 0] exI [of _ "t + latency r"]) (simp add: Let_def)
  next
    case False
    then have le: "t + latency r \<le> start + maxTimeout" by simp
    with Cons.prems(4) have ne: "rs \<noteq> []" by (cases rs) auto
    have iv': "2000 \<le> min (iv * 2) maxInterval"
      using Cons.prems(2) by (simp add: maxInterval_def)
    have len: "start + maxTimeout < (t + latency r + iv + oversleep r) + 2000 * (length rs - 1)"
      using Cons.prems(2,4) ne by (cases rs) auto
    from Cons.IH [OF _ iv' ne len, of "cbs @ [answer_of r]"] Cons.prems(1)
    obtain k t' where k: "k < length rs"
      "pollUploadStatus_loop rs (min (iv * 2) maxInterval) start
         (t + latency r + iv + oversleep r) (cbs @ [answer_of r])
       = Some (Thrown PollingTimeout,
               (cbs @ [answer_of r]) @ map answer_of (take (Suc k) rs)
                 @ [timeoutInfo (answer_of (rs ! k))], t')"
      by auto
    show ?thesis
      using k r False by (intro exI [of _ "Suc k"] exI [of _ t']) (simp add: Let_def)
  qed
qed

text \<open>
  The poller of apiService.ts. If every status request is answered with a non-terminal
  status, the session ends by throwing the timeout error, having handed to the callback
  every status received, in order, and then the synthesized status (failed, the timeout
  text, the progress of the last status or 0) once; and a session that throws the timeout
  error does so more than 20 minutes after its start.
\<close>

lemma ts_poll_times_out:
  assumes "\<forall>i. pending (env i)"
  shows "(\<exists>n k t. k < n \<and>
           pollUploadStatus start (map env [0..<n])
           = Some (Thrown PollingTimeout,
                   map (\<lambda>i. answer_of (env i)) [0..<Suc k] @ [timeoutInfo (answer_of (env k))],
                   t)
           \<and> length (filter is_timeout_info
                 (map (\<lambda>i. answer_of (env i)) [0..<Suc k] @ [timeoutInfo (answer_of (env k))]))
               = 1)
       \<and> (\<forall>rs cbs t. pollUploadStatus start rs = Some (Thrown PollingTimeout, cbs, t)
             \<longrightarrow> maxTimeout < t - start)"
proof -
  let ?rs = "map env [0..<602]"
  have "\<forall>r\<in>set ?rs. pending r" using assms by auto
  moreover have "?rs \<noteq> []" by simp
  moreover have "start + maxTimeout < start + 2000 * (length ?rs - 1)"
    by (simp add: maxTimeout_def)
  ultimately obtain k t' where k: "k < length ?rs"
    "pollUploadStatus_loop ?rs 2000 start start []
     = Some (Thrown PollingTimeout,
             [] @ map answer_of (take (Suc k) ?rs) @ [timeoutInfo (answer_of (?rs ! k))], t')"
    using poll_times_out [of ?rs 2000 start start "[]"] by auto
  have tk: "map answer_of (take (Suc k) ?rs) = map (\<lambda>i. answer_of (env i)) [0..<Suc k]"
    using k(1) by (simp add: take_map del: upt_Suc)
  have nth: "?rs ! k = env k" using k(1) by simp
  have filt: "filter is_timeout_info (map (\<lambda>i. answer_of (env i)) [0..<Suc k]) = []"
    using assms by (simp add: filter_empty_conv pending_not_timeout del: upt_Suc)
  have "is_timeout_info (timeoutInfo u)" for u
    by (simp add: is_timeout_info_def timeoutInfo_def)
  with filt have one:
    "length (filter is_timeout_info
       (map (\<lambda>i. answer_of (env i)) [0..<Suc k] @ [timeoutInfo (answer_of (env k))])) = 1"
    by (simp del: upt_Suc)
  have 1: "\<exists>n k t. k < n \<and>
           pollUploadStatus start (map env [0..<n])
           = Some (Thrown PollingTimeout,
                   map (\<lambda>i. answer_of (env i)) [0..<Suc k] @ [timeoutInfo (answer_of (env k))],
                   t)
           \<and> length (filter is_timeout_info
                 (map (\<lambda>i. answer_of (env i)) [0..<Suc k] @ [timeoutInfo (answer_of (env k))]))
               = 1"
    apply (rule exI [of _ 602], rule exI [of _ k], rule exI [of _ t'])
    using k one by (simp add: pollUploadStatus_def tk nth del: upt_Suc)
  have 2: "\<forall>rs cbs t. pollUploadStatus start rs = Some (Thrown PollingTimeout, cbs, t)
             \<longrightarrow> maxTimeout < t - start"
    using timeout_never_early by (auto simp: pollUploadStatus_def)
  from 1 2 show ?thesis by blast
qed

lemma ts_no_retry:
  "failing r \<Longrightarrow>
   pollUploadStatus_loop (r # rs) iv start t cbs
   = Some (Thrown (RequestFailed (outcome r)), cbs, t + latency r)"
  by (auto simp: failing_def Let_def)

lemma legacy_retry:
  "script_failing r \<Longrightarrow> cf < 4 \<Longrightarrow>
   legacy_poll_loop (r # rs) iv start t cf cbs
   = legacy_poll_loop rs (min (iv * 2) maxInterval) start
       (t + latency r + min iv maxInterval + oversleep r) (cf + 1) cbs"
  by (auto simp: script_failing_def Let_def)

lemma legacy_give_up:
  "script_failing r \<Longrightarrow> 4 \<le> cf \<Longrightarrow>
   legacy_poll_loop (r # rs) iv start t cf cbs
   = Some (Thrown (RequestFailed (outcome r)), cbs @ [abortInfo], t + latency r)"
  by (auto simp: script_failing_def Let_def)

lemma legacy_reset:
  "script_answer r info \<Longrightarrow> \<not> terminal info \<Longrightarrow> t + latency r - start \<le> maxTimeout \<Longrightarrow>
   legacy_poll_loop (r # rs) iv start t cf cbs
   = legacy_poll_loop rs (min (iv * 2) maxInterval) start (t + latency r + iv + oversleep r) 0
       (cbs @ [info])"
  by (auto simp: script_answer_def Let_def)

lemma legacy_return:
  "script_answer r info \<Longrightarrow> terminal info \<Longrightarrow>
   legacy_poll_loop (r # rs) iv start t cf cbs = Some (Returned info, cbs @ [info], t + latency r)"
  by (auto simp: script_answer_def Let_def)

lemma legacy_fail_run:
  assumes "\<forall>r\<in>set fs. script_failing r" and "cf + length fs < 5"
  shows "\<exists>iv' t'. legacy_poll_loop (fs @ rs) iv start t cf cbs
                  = legacy_poll_loop rs iv' start t' (cf + length fs) cbs"
  using assms
proof (induction fs arbitrary: iv t cf)
  case Nil
  then show ?case by auto
next
  case (Cons r fs)
  then have "script_failing r" "cf < 4" by auto
  then have step:
    "legacy_poll_loop ((r # fs) @ rs) iv start t cf cbs
     = legacy_poll_loop (fs @ rs) (min (iv * 2) maxInterval) start
         (t + latency r + min iv maxInterval + oversleep r) (cf + 1) cbs"
    using legacy_retry [of r cf "fs @ rs"] by simp
  from Cons.IH [of "cf + 1" "min (iv * 2) maxInterval"
                   "t + latency r + min iv maxInterval + oversleep r"] Cons.prems
  obtain iv' t' where
    "legacy_poll_loop (fs @ rs) (min (iv * 2) maxInterval) start
       (t + latency r + min iv maxInterval + oversleep r) (cf + 1) cbs
     = legacy_poll_loop rs iv' start t' (cf + 1 + length fs) cbs"
    by auto
  with step show ?case by (intro exI [of _ iv'] exI [of _ t']) simp
qed

lemma legacy_five_failures:
  assumes "\<forall>r\<in>set fs. script_failing r" and "length fs = 5"
  shows "\<exists>t'. legacy_pollUploadStatus start (fs @ rs)
              = Some (Thrown (RequestFailed (outcome (last fs))), [abortInfo], t')"
proof -
  from assms(2) obtain fs4 r where fs: "fs = fs4 @ [r]" "length fs4 = 4"
    by (cases fs rule: rev_cases) auto
  with assms(1) have f4: "\<forall>r\<in>set fs4. script_failing r" and fr: "script_failing r" by auto
  from legacy_fail_run [OF f4, of 0 "r # rs" 2000 start start "[]"] fs(2)
  obtain iv' t' where
    "legacy_poll_loop (fs4 @ r # rs) 2000 start start 0 []
     = legacy_poll_loop (r # rs) iv' start t' 4 []"
    by auto
  then show ?thesis
    using legacy_give_up [OF fr, of 4 rs iv' start t' "[]"] fs
    by (auto simp: legacy_pollUploadStatus_def)
qed

lemma legacy_four_failures:
  assumes "\<forall>r\<in>set fs. script_failing r" and "length fs \<le> 4"
    and "script_answer r info" and "terminal info"
  shows "\<exists>t'. legacy_pollUploadStatus start (fs @ r # rs) = Some (Returned info, [info], t')"
proof -
  from legacy_fail_run [OF assms(1), of 0 "r # rs" 2000 start start "[]"] assms(2)
  obtain iv' t' where
    "legacy_poll_loop (fs @ r # rs) 2000 start start 0 []
     = legacy_poll_loop (r # rs) iv' start t' (length fs) []"
    by auto
  then show ?thesis
    using legacy_return [OF assms(3,4), of rs iv' start t' "length fs" "[]"]
    by (simp add: legacy_pollUploadStatus_def)
qed

text \<open>
  Claim C3, as the code has it. The poller of apiService.ts does not retry: a status
  request that fails with anything but a 404 (no response, or any other error status)
  ends the session at once with that error. The poller of the static script counts
  consecutive failures, a failure being a request that gets no response or a response,
  other than a 404, whose body is not JSON: below the fifth, a failure is followed by a
  wait of the current interval (at most 5000 ms) and the next round with the interval
  doubled (at most 5000 ms); the fifth consecutive failure hands the network-abort status
  to the callback and throws that failure. A response whose body is JSON is no failure,
  whatever its HTTP status other than 404: its body is handed to the callback as a
  status; if that status is not terminal and the time is not up, the count is set to zero
  and the next round follows, and if it is terminal, the session returns it. So up to
  four failures in a row are survived, and five in a row end the session.
\<close>

theorem poll_retry_policy:
  "(failing r \<longrightarrow>
      pollUploadStatus_loop (r # rs) iv start t cbs
      = Some (Thrown (RequestFailed (outcome r)), cbs, t + latency r))
   \<and> (script_failing r \<and> cf < 4 \<longrightarrow>
      legacy_poll_loop (r # rs) iv start t cf cbs
      = legacy_poll_loop rs (min (iv * 2) maxInterval) start
          (t + latency r + min iv maxInterval + oversleep r) (cf + 1) cbs)
   \<and> (script_failing r \<and> 4 \<le> cf' \<longrightarrow>
      legacy_poll_loop (r # rs) iv start t cf' cbs
      = Some (Thrown (RequestFailed (outcome r)), cbs @ [abortInfo], t + latency r))
   \<and> (script_answer p pinfo \<and> \<not> terminal pinfo \<and> t + latency p - start \<le> maxTimeout \<longrightarrow>
      legacy_poll_loop (p # rs) iv start t cf cbs
      = legacy_poll_loop rs (min (iv * 2) maxInterval) start (t + latency p + iv + oversleep p) 0
          (cbs @ [pinfo]))
   \<and> (script_answer d info \<and> terminal info \<longrightarrow>
      legacy_poll_loop (d # rs) iv start t cf cbs
      = Some (Returned info, cbs @ [info], t + latency d))
   \<and> ((\<forall>f\<in>set fs5. script_failing f) \<and> length fs5 = 5 \<longrightarrow>
      (\<exists>t'. legacy_pollUploadStatus start (fs5 @ rs)
            = Some (Thrown (RequestFailed (outcome (last fs5))), [abortInfo], t')))
   \<and> ((\<forall>f\<in>set fs4. script_failing f) \<and> length fs4 \<le> 4 \<and> script_answer d info
       \<and> terminal info
      \<longrightarrow> (\<exists>t'. legacy_pollUploadStatus start (fs4 @ d # rs) = Some (Returned info, [info], t')))"
  using ts_no_retry [of r rs iv start t cbs] legacy_retry [of r cf rs iv start t cbs]
    legacy_give_up [of r cf' rs iv start t cbs] legacy_reset [of p pinfo t start rs iv cf cbs]
    legacy_return [of d info rs iv start t cf cbs]
    legacy_five_failures [of fs5 start rs] legacy_four_failures [of fs4 d info start rs]
  by blast

theorem poll_retry_policy_witness:
  "pollUploadStatus_loop [bad_gateway] 2000 0 0 []
     = Some (Thrown (RequestFailed (HttpStatus 502 None)), [], 50)
   \<and> legacy_poll_loop [bad_gateway] 2000 0 0 4 []
     = Some (Thrown (RequestFailed (HttpStatus 502 None)), [abortInfo], 50)
   \<and> legacy_poll_loop [busy_error, bad_gateway] 2000 0 0 4 []
     = legacy_poll_loop [bad_gateway] 4000 0 2050 0
         [\<lparr>status = Processing, info_message = None, progress = Some 40\<rparr>]
   \<and> (\<exists>t'. legacy_pollUploadStatus 0 (replicate 5 net_fail @ [])
            = Some (Thrown (RequestFailed NetworkFailure), [abortInfo], t'))
   \<and> (\<exists>t'. legacy_pollUploadStatus 0 (replicate 4 net_fail @ [done_round])
            = Some (Returned \<lparr>status = Done, info_message = None, progress = Some 100\<rparr>,
                    [\<lparr>status = Done, info_message = None, progress = Some 100\<rparr>], t'))"
  using poll_retry_policy
    [of bad_gateway "[]" 2000 0 0 "[]" 0 4 busy_error
        "\<lparr>status = Processing, info_message = None, progress = Some 40\<rparr>"
        done_round "\<lparr>status = Done, info_message = None, progress = Some 100\<rparr>"
        "replicate 5 net_fail" "replicate 4 net_fail"]
    poll_retry_policy
    [of bad_gateway "[bad_gateway]" 2000 0 0 "[]" 0 4 busy_error
        "\<lparr>status = Processing, info_message = None, progress = Some 40\<rparr>"
        done_round "\<lparr>status = Done, info_message = None, progress = Some 100\<rparr>"
        "replicate 5 net_fail" "replicate 4 net_fail"]
  by (simp add: failing_def script_failing_def script_answer_def terminal_def net_fail_def
        done_round_def bad_gateway_def busy_error_def maxTimeout_def maxInterval_def)

text \<open>
  Claim C3 as stated fails. With five network failures in a row and then the answer
  \<^verbatim>\<open>done\<close>, the static script's poller throws at the fifth failure, and the poller of
  apiService.ts throws at the first failure.
\<close>

theorem fifth_failure_ends_poll_counterexample:
  "legacy_pollUploadStatus 0 (replicate 5 net_fail @ [done_round])
     = Some (Thrown (RequestFailed NetworkFailure), [abortInfo], 16250)
   \<and> pollUploadStatus 0 [net_fail, done_round]
     = Some (Thrown (RequestFailed NetworkFailure), [], 50)"
  by (simp add: legacy_pollUploadStatus_def pollUploadStatus_def net_fail_def done_round_def
        Let_def maxInterval_def numeral_eq_Suc)

text \<open>
  Claim C8 on the static script's poller. The timeout error is thrown inside the
  \<^verbatim>\<open>try\<close> whose \<^verbatim>\<open>catch\<close> counts it as one failure and goes on: with a first answer
  that arrives 1200001 ms after the start, the synthesized timeout status is handed to
  the callback at every later round, and the session ends normally with the answer
  \<^verbatim>\<open>done\<close>.
\<close>

theorem legacy_timeout_swallowed:
  "legacy_pollUploadStatus 0 [busy_round\<lparr>latency := 1200001\<rparr>, busy_round, done_round]
   = Some (Returned \<lparr>status = Done, info_message = None, progress = Some 100\<rparr>,
       [\<lparr>status = Processing, info_message = None, progress = Some 30\<rparr>,
        timeoutInfo \<lparr>status = Processing, info_message = None, progress = Some 30\<rparr>,
        \<lparr>status = Processing, info_message = None, progress = Some 30\<rparr>,
        timeoutInfo \<lparr>status = Processing, info_message = None, progress = Some 30\<rparr>,
        \<lparr>status = Done, info_message = None, progress = Some 100\<rparr>], 1206101)"
  by (simp add: legacy_pollUploadStatus_def busy_round_def done_round_def Let_def
        maxInterval_def maxTimeout_def terminal_def)

section \<open>Properties of the stream consumer\<close>

lemma and_mask_mod: "(x::nat) AND mask n = x mod 2 ^ n"
  by (simp add: take_bit_eq_mask[symmetric] take_bit_eq_mod)

lemma and_3F: "(x::nat) AND 0x3F = x mod 64"
  using and_mask_mod [of x 6] by (simp add: mask_eq_exp_minus_1)

lemma and_1F: "(x::nat) AND 0x1F = x mod 32"
  using and_mask_mod [of x 5] by (simp add: mask_eq_exp_minus_1)

lemma and_F: "(x::nat) AND 0xF = x mod 16"
  using and_mask_mod [of x 4] by (simp add: mask_eq_exp_minus_1)

lemma and_7: "(x::nat) AND 0x7 = x mod 8"
  using and_mask_mod [of x 3] by (simp add: mask_eq_exp_minus_1)

lemma push_or_add:
  fixes x y :: nat
  assumes "y < 2 ^ n"
  shows "push_bit n x OR y = 2 ^ n * x + y"
proof -
  have y: "take_bit n y = y" using assms by (simp add: take_bit_eq_mod)
  have "push_bit n x AND take_bit n y = 0"
    by (auto simp: bit_eq_iff bit_and_iff bit_push_bit_iff bit_take_bit_iff)
  then have "push_bit n x + y = push_bit n x OR y"
    using y by (simp add: disjunctive_add_eq_or)
  then show ?thesis by (simp add: push_bit_eq_mult mult.commute)
qed

lemma shift_or: "y < 64 \<Longrightarrow> push_bit 6 (x::nat) OR y = 64 * x + y"
  using push_or_add[of y 6 x] by simp

lemma or_80: "x < 0x80 \<Longrightarrow> (0x80::nat) OR x = 0x80 + x"
  using push_or_add[of x 7 1] by simp

lemma drop6: "drop_bit 6 (c::nat) = c div 64"
  by (simp add: drop_bit_eq_div)

lemma drop12: "drop_bit 12 (c::nat) = c div 4096"
  by (simp add: drop_bit_eq_div)

lemma drop18: "drop_bit 18 (c::nat) = c div 262144"
  by (simp add: drop_bit_eq_div)

lemma mod_lead2: "h < 32 \<Longrightarrow> (h + 192) mod 32 = (h::nat)"
  using mod_mult_self2 [of h 32 6] by simp

lemma mod_lead3: "h < 16 \<Longrightarrow> (h + 224) mod 16 = (h::nat)"
  using mod_mult_self2 [of h 16 14] by simp

lemma mod_lead4: "h < 8 \<Longrightarrow> (h + 240) mod 8 = (h::nat)"
  using mod_mult_self2 [of h 8 30] by simp

lemma mod_cont: "x < 64 \<Longrightarrow> (128 + x) mod 64 = (x::nat)"
  using mod_mult_self4 [of 64 2 x] by simp

lemma cont_byte_eq: "0x80 OR (x mod 64) = 128 + x mod (64::nat)"
  using or_80 [of "x mod 64"] by simp

lemma cont_step:
  assumes "bytes_needed d \<noteq> 0" and "l < 64"
    and "lower_boundary d \<le> 128 + l" and "128 + l \<le> upper_boundary d"
  shows "utf8_handler d (128 + l) =
           (if bytes_seen d + 1 \<noteq> bytes_needed d
            then (d\<lparr>lower_boundary := 0x80, upper_boundary := 0xBF,
                     code_point := 64 * code_point d + l, bytes_seen := bytes_seen d + 1\<rparr>, [])
            else (d\<lparr>lower_boundary := 0x80, upper_boundary := 0xBF,
                     code_point := 0, bytes_seen := 0, bytes_needed := 0\<rparr>,
                  [64 * code_point d + l]))"
  using assms
  by (simp add: utf8_handler_def Let_def and_3F mod_cont shift_or)

lemma enc1:
  "c \<le> 0x7F \<Longrightarrow>
   decode_bytes new_utf8_decoder (utf8_encode_cp c) = (new_utf8_decoder, [c])
   \<and> (\<forall>n<length (utf8_encode_cp c).
         snd (decode_bytes new_utf8_decoder (take n (utf8_encode_cp c))) = [])"
  by (simp add: utf8_encode_cp_def utf8_handler_def lead_byte_def new_utf8_decoder_def)

lemma enc2:
  assumes "0x7F < c" and "c \<le> 0x7FF"
  shows "decode_bytes new_utf8_decoder (utf8_encode_cp c) = (new_utf8_decoder, [c])
       \<and> (\<forall>n<length (utf8_encode_cp c).
             snd (decode_bytes new_utf8_decoder (take n (utf8_encode_cp c))) = [])"
proof -
  define h where "h = c div 64"
  define l where "l = c mod 64"
  have c: "64 * h + l = c" by (simp add: h_def l_def)
  have l: "l < 64" by (simp add: l_def)
  have h: "2 \<le> h" "h < 32" using assms by (simp_all add: h_def)
  have enc: "utf8_encode_cp c = [h + 192, 128 + l]"
    using assms by (simp add: utf8_encode_cp_def and_3F drop6 cont_byte_eq h_def l_def)
  have s1: "utf8_handler new_utf8_decoder (h + 192)
            = (new_utf8_decoder\<lparr>bytes_needed := 1, code_point := h\<rparr>, [])"
    using h by (simp add: utf8_handler_def lead_byte_def new_utf8_decoder_def and_1F mod_lead2)
  have s2: "utf8_handler (new_utf8_decoder\<lparr>bytes_needed := 1, code_point := h\<rparr>) (128 + l)
            = (new_utf8_decoder, [c])"
    using l c by (subst cont_step) (simp_all add: new_utf8_decoder_def)
  have whole: "decode_bytes new_utf8_decoder [h + 192, 128 + l] = (new_utf8_decoder, [c])"
    by (simp only: decode_bytes.simps s1 s2 Let_def prod.case append.simps)
  have part: "snd (decode_bytes new_utf8_decoder (take n [h + 192, 128 + l])) = []" if "n < 2" for n
  proof -
    have p1: "snd (decode_bytes new_utf8_decoder [h + 192]) = []"
      by (simp only: decode_bytes.simps s1 Let_def prod.case append.simps snd_conv)
    from that consider "n = 0" | "n = 1" by linarith
    then show ?thesis using p1 by cases simp_all
  qed
  show ?thesis using whole part by (simp add: enc)
qed

lemma enc3:
  assumes "0x7FF < c" and "c \<le> 0xFFFF" and "\<not> (0xD800 \<le> c \<and> c \<le> 0xDFFF)"
  shows "decode_bytes new_utf8_decoder (utf8_encode_cp c) = (new_utf8_decoder, [c])
       \<and> (\<forall>n<length (utf8_encode_cp c).
             snd (decode_bytes new_utf8_decoder (take n (utf8_encode_cp c))) = [])"
proof -
  define h where "h = c div 4096"
  define m where "m = c div 64 mod 64"
  define l where "l = c mod 64"
  have hm: "64 * h + m = c div 64"
    by (simp add: h_def m_def div_mult2_eq [of c 64 64, simplified])
  have c: "64 * (c div 64) + l = c" by (simp add: l_def)
  have l: "l < 64" by (simp add: l_def)
  have m: "m < 64" by (simp add: m_def)
  have h: "h < 16" using assms by (simp add: h_def)
  have lo: "h = 0 \<Longrightarrow> 32 \<le> m"
    using assms hm by (cases "c div 64 < 32") auto
  have hi: "h = 13 \<Longrightarrow> m < 32"
    using assms hm h_def by (cases "c div 64 < 864") auto
  have enc: "utf8_encode_cp c = [h + 224, 128 + m, 128 + l]"
    using assms by (simp add: utf8_encode_cp_def and_3F drop6 drop12 cont_byte_eq h_def m_def l_def)
  let ?d1 = "new_utf8_decoder\<lparr>lower_boundary := (if h = 0 then 0xA0 else 0x80),
                upper_boundary := (if h = 13 then 0x9F else 0xBF),
                bytes_needed := 2, code_point := h\<rparr>"
  have s1: "utf8_handler new_utf8_decoder (h + 224) = (?d1, [])"
    using h by (simp add: utf8_handler_def lead_byte_def new_utf8_decoder_def and_F mod_lead3)
  let ?d2 = "new_utf8_decoder\<lparr>bytes_needed := 2, code_point := c div 64, bytes_seen := 1\<rparr>"
  have s2: "utf8_handler ?d1 (128 + m) = (?d2, [])"
    using m lo hi hm by (subst cont_step) (auto simp add: new_utf8_decoder_def)
  have s3: "utf8_handler ?d2 (128 + l) = (new_utf8_decoder, [c])"
    using l c by (subst cont_step) (simp_all add: new_utf8_decoder_def)
  have whole: "decode_bytes new_utf8_decoder [h + 224, 128 + m, 128 + l] = (new_utf8_decoder, [c])"
    by (simp only: decode_bytes.simps s1 s2 s3 Let_def prod.case append.simps)
  have part: "snd (decode_bytes new_utf8_decoder (take n [h + 224, 128 + m, 128 + l])) = []"
    if "n < 3" for n
  proof -
    have p1: "snd (decode_bytes new_utf8_decoder [h + 224]) = []"
      by (simp only: decode_bytes.simps s1 Let_def prod.case append.simps snd_conv)
    have p2: "snd (decode_bytes new_utf8_decoder [h + 224, 128 + m]) = []"
      by (simp only: decode_bytes.simps s1 s2 Let_def prod.case append.simps snd_conv)
    from that consider "n = 0" | "n = 1" | "n = 2" by linarith
    then show ?thesis using p1 p2 by cases simp_all
  qed
  show ?thesis using whole part by (simp add: enc)
qed

lemma enc4:
  assumes "0xFFFF < c" and "c \<le> 0x10FFFF"
  shows "decode_bytes new_utf8_decoder (utf8_encode_cp c) = (new_utf8_decoder, [c])
       \<and> (\<forall>n<length (utf8_encode_cp c).
             snd (decode_bytes new_utf8_decoder (take n (utf8_encode_cp c))) = [])"
proof -
  define h where "h = c div 262144"
  define n where "n = c div 4096 mod 64"
  define m where "m = c div 64 mod 64"
  define l where "l = c mod 64"
  have hn: "64 * h + n = c div 4096"
    by (simp add: h_def n_def div_mult2_eq [of c 4096 64, simplified])
  have nm: "64 * (c div 4096) + m = c div 64"
    by (simp add: m_def div_mult2_eq [of c 64 64, simplified])
  have c: "64 * (c div 64) + l = c" by (simp add: l_def)
  have l: "l < 64" by (simp add: l_def)
  have m: "m < 64" by (simp add: m_def)
  have n: "n < 64" by (simp add: n_def)
  have h: "h < 5" using assms by (simp add: h_def)
  have lo: "h = 0 \<Longrightarrow> 16 \<le> n"
    using assms hn by (cases "c div 4096 < 16") auto
  have hi: "h = 4 \<Longrightarrow> n < 16"
    using assms hn by (cases "c div 4096 < 272") auto
  have enc: "utf8_encode_cp c = [h + 240, 128 + n, 128 + m, 128 + l]"
    using assms
    by (simp add: utf8_encode_cp_def and_3F drop6 drop12 drop18 cont_byte_eq h_def n_def m_def l_def)
  let ?d1 = "new_utf8_decoder\<lparr>lower_boundary := (if h = 0 then 0x90 else 0x80),
                upper_boundary := (if h = 4 then 0x8F else 0xBF),
                bytes_needed := 3, code_point := h\<rparr>"
  have s1: "utf8_handler new_utf8_decoder (h + 240) = (?d1, [])"
    using h by (simp add: utf8_handler_def lead_byte_def new_utf8_decoder_def and_7 mod_lead4)
  let ?d2 = "new_utf8_decoder\<lparr>bytes_needed := 3, code_point := c div 4096, bytes_seen := 1\<rparr>"
  have s2: "utf8_handler ?d1 (128 + n) = (?d2, [])"
    using n lo hi hn by (subst cont_step) (auto simp add: new_utf8_decoder_def)
  let ?d3 = "new_utf8_decoder\<lparr>bytes_needed := 3, code_point := c div 64, bytes_seen := 2\<rparr>"
  have s3: "utf8_handler ?d2 (128 + m) = (?d3, [])"
    using m nm by (subst cont_step) (simp_all add: new_utf8_decoder_def)
  have s4: "utf8_handler ?d3 (128 + l) = (new_utf8_decoder, [c])"
    using l c by (subst cont_step) (simp_all add: new_utf8_decoder_def)
  have whole: "decode_bytes new_utf8_decoder [h + 240, 128 + n, 128 + m, 128 + l]
               = (new_utf8_decoder, [c])"
    by (simp only: decode_bytes.simps s1 s2 s3 s4 Let_def prod.case append.simps)
  have part: "snd (decode_bytes new_utf8_decoder (take k [h + 240, 128 + n, 128 + m, 128 + l])) = []"
    if "k < 4" for k
  proof -
    have p1: "snd (decode_bytes new_utf8_decoder [h + 240]) = []"
      by (simp only: decode_bytes.simps s1 Let_def prod.case append.simps snd_conv)
    have p2: "snd (decode_bytes new_utf8_decoder [h + 240, 128 + n]) = []"
      by (simp only: decode_bytes.simps s1 s2 Let_def prod.case append.simps snd_conv)
    have p3: "snd (decode_bytes new_utf8_decoder [h + 240, 128 + n, 128 + m]) = []"
      by (simp only: decode_bytes.simps s1 s2 s3 Let_def prod.case append.simps snd_conv)
    from that consider "k = 0" | "k = 1" | "k = 2" | "k = 3" by linarith
    then show ?thesis using p1 p2 p3 by cases simp_all
  qed
  show ?thesis using whole part by (simp add: enc)
qed

lemma decode_encode_cp_full:
  "scalar_value c \<Longrightarrow>
   decode_bytes new_utf8_decoder (utf8_encode_cp c) = (new_utf8_decoder, [c])
   \<and> (\<forall>n<length (utf8_encode_cp c).
         snd (decode_bytes new_utf8_decoder (take n (utf8_encode_cp c))) = [])"
  using enc1 [of c] enc2 [of c] enc3 [of c] enc4 [of c]
  by (cases "c \<le> 0x7F"; cases "c \<le> 0x7FF"; cases "c \<le> 0xFFFF")
     (simp_all add: scalar_value_def)

lemma decode_encode_cp:
  "scalar_value c \<Longrightarrow> decode_bytes new_utf8_decoder (utf8_encode_cp c) = (new_utf8_decoder, [c])"
  by (simp add: decode_encode_cp_full)

lemma decode_partial_cp:
  "scalar_value c \<Longrightarrow> n < length (utf8_encode_cp c) \<Longrightarrow>
   snd (decode_bytes new_utf8_decoder (take n (utf8_encode_cp c))) = []"
  by (simp add: decode_encode_cp_full)

lemma decode_bytes_append:
  "decode_bytes d (xs @ ys) =
     (let (d1, o1) = decode_bytes d xs; (d2, o2) = decode_bytes d1 ys in (d2, o1 @ o2))"
  by (induction xs arbitrary: d) (auto simp: Let_def split: prod.splits)

lemma utf8_encode_Cons: "utf8_encode (c # cs) = utf8_encode_cp c @ utf8_encode cs"
  by (simp add: utf8_encode_def)

lemma decode_encode:
  "\<forall>c\<in>set cs. scalar_value c \<Longrightarrow> decode_bytes new_utf8_decoder (utf8_encode cs) = (new_utf8_decoder, cs)"
proof (induction cs)
  case Nil
  then show ?case by (simp add: utf8_encode_def)
next
  case (Cons c cs)
  then show ?case
    by (simp add: utf8_encode_Cons decode_bytes_append decode_encode_cp)
qed

lemma serialize_append:
  "serialize seen (o1 @ o2) =
     (let (s1, c1) = serialize seen o1; (s2, c2) = serialize s1 o2 in (s2, c1 @ c2))"
  by (cases o1; cases o2) (auto simp: serialize_def)

lemma decode_stream_append:
  "decode_stream td (xs @ ys) =
     (let (td1, c1) = decode_stream td xs; (td2, c2) = decode_stream td1 ys in (td2, c1 @ c2))"
  by (simp add: decode_stream_def decode_bytes_append serialize_append Let_def split: prod.splits)

lemma decode_stream_Nil [simp]: "decode_stream td [] = (td, [])"
  by (simp add: decode_stream_def serialize_def)

lemma decode_stream_snd_append:
  "snd (decode_stream td (xs @ ys)) = snd (decode_stream td xs) @ snd (decode_stream (fst (decode_stream td xs)) ys)"
  by (simp add: decode_stream_append Let_def split: prod.splits)

lemma read_loop_chunks:
  "read_loop td acc (map Inr chunks) calls =
     (Inr (acc @ snd (decode_stream td (concat chunks))),
      calls @ map (\<lambda>k. acc @ snd (decode_stream td (concat (take (Suc k) chunks)))) [0..<length chunks])"
proof (induction chunks arbitrary: td acc calls)
  case Nil
  then show ?case by (simp add: decode_stream_def serialize_def)
next
  case (Cons v rest)
  obtain td1 ch where d: "decode_stream td v = (td1, ch)" by (cases "decode_stream td v")
  have shift: "map (\<lambda>k. acc @ snd (decode_stream td (concat (take (Suc k) (v # rest))))) [0..<length (v # rest)]
    = (acc @ ch) # map (\<lambda>k. (acc @ ch) @ snd (decode_stream td1 (concat (take (Suc k) rest)))) [0..<length rest]"
    using d by (simp add: upt_rec[of 0] map_Suc_upt[symmetric] decode_stream_snd_append del: upt_Suc)
  show ?case
    using d Cons.IH[of td1 "acc @ ch" "calls @ [acc @ ch]"] shift
    by (simp add: decode_stream_snd_append del: upt_Suc)
qed

lemma decode_all_encode:
  "\<forall>c\<in>set cs. scalar_value c \<Longrightarrow> decode_all (utf8_encode cs) = strip_bom cs"
  by (simp add: decode_all_def decode_stream_def new_TextDecoder_def decode_encode serialize_def strip_bom_def
      split: list.splits)

lemma decode_all_partial:
  assumes "\<forall>x\<in>set pre. scalar_value x" and "scalar_value c" and "n < length (utf8_encode_cp c)"
  shows "decode_all (utf8_encode pre @ take n (utf8_encode_cp c)) = strip_bom pre"
proof -
  obtain d where d: "decode_bytes new_utf8_decoder (take n (utf8_encode_cp c)) = (d, [])"
    using decode_partial_cp [OF assms(2,3)]
    by (cases "decode_bytes new_utf8_decoder (take n (utf8_encode_cp c))") auto
  have "decode_bytes new_utf8_decoder (utf8_encode pre @ take n (utf8_encode_cp c)) = (d, pre)"
    using d decode_encode [OF assms(1)] by (simp add: decode_bytes_append)
  then show ?thesis
    by (simp add: decode_all_def decode_stream_def new_TextDecoder_def serialize_def strip_bom_def
          split: list.splits)
qed

lemma decode_all_prefix: "\<exists>rest. decode_all (xs @ ys) = decode_all xs @ rest"
  by (simp add: decode_all_def decode_stream_snd_append)

text \<open>
  Claim C7, as the code has it. For every text of scalar values and every way of cutting
  its UTF-8 encoding into chunks, also inside a character: the consumer returns the text,
  without a leading U+FEFF if it had one; after each chunk the callback receives the
  whole text decoded from all the bytes received so far, which is a prefix of the
  returned text; and bytes that end inside a character decode to the text of the
  characters before it, the unfinished character being held back.
\<close>

theorem stream_decoding_chunk_safe:
  assumes "\<forall>c\<in>set cs. scalar_value c" and "concat chunks = utf8_encode cs"
  shows "streamChatMessage \<lparr>ok = True, body = Some (map Inr chunks)\<rparr>
         = (Inr (strip_bom cs),
            map (\<lambda>k. decode_all (concat (take (Suc k) chunks))) [0..<length chunks])
       \<and> (\<forall>k<length chunks.
            \<exists>rest. strip_bom cs = decode_all (concat (take (Suc k) chunks)) @ rest)
       \<and> (\<forall>pre c n. (\<forall>x\<in>set pre. scalar_value x) \<and> scalar_value c
                      \<and> n < length (utf8_encode_cp c)
            \<longrightarrow> decode_all (utf8_encode pre @ take n (utf8_encode_cp c)) = strip_bom pre)"
proof -
  have fin: "decode_all (concat chunks) = strip_bom cs"
    using assms decode_all_encode by simp
  have 1: "streamChatMessage \<lparr>ok = True, body = Some (map Inr chunks)\<rparr>
         = (Inr (strip_bom cs),
            map (\<lambda>k. decode_all (concat (take (Suc k) chunks))) [0..<length chunks])"
    using fin by (simp add: streamChatMessage_def read_loop_chunks decode_all_def)
  have 2: "\<exists>rest. strip_bom cs = decode_all (concat (take (Suc k) chunks)) @ rest" for k
  proof -
    have "concat chunks = concat (take (Suc k) chunks) @ concat (drop (Suc k) chunks)"
      by (metis append_take_drop_id concat_append)
    then show ?thesis using fin decode_all_prefix by metis
  qed
  from 1 2 decode_all_partial show ?thesis by blast
qed

theorem stream_decoding_chunk_safe_witness:
  "streamChatMessage \<lparr>ok = True, body = Some [Inr [0xED, 0x95], Inr [0x9C, 0x41]]\<rparr>
   = (Inr [0xD55C, 0x41], [[], [0xD55C, 0x41]])"
  using stream_decoding_chunk_safe [of "[0xD55C, 0x41]" "[[0xED, 0x95], [0x9C, 0x41]]"]
  by (simp add: scalar_value_def utf8_encode_def utf8_encode_cp_def strip_bom_def decode_all_def
        decode_stream_def new_TextDecoder_def new_utf8_decoder_def utf8_handler_def
        lead_byte_def serialize_def Let_def)

text \<open>
  Claim C7 as stated fails for a text that begins with U+FEFF: the decoder drops it, and
  the returned text is not the original.
\<close>

theorem leading_bom_dropped_counterexample:
  "streamChatMessage \<lparr>ok = True, body = Some [Inr (utf8_encode [0xFEFF, 0x41])]\<rparr>
     = (Inr [0x41], [[0x41]])
   \<and> scalar_value 0xFEFF \<and> scalar_value 0x41"
  by (simp add: streamChatMessage_def decode_stream_def utf8_encode_def utf8_encode_cp_def
        new_TextDecoder_def new_utf8_decoder_def utf8_handler_def lead_byte_def serialize_def
        scalar_value_def Let_def)

section \<open>Properties of the IndexedDB store\<close>

lemma sorted_fst:
  fixes f :: "'a \<Rightarrow> 'b::linorder \<times> 'c::linorder"
  shows "sorted (map f ys) \<Longrightarrow> sorted (map (\<lambda>r. fst (f r)) ys)"
  by (induction ys) (auto simp: less_eq_prod_def)

lemma idb_sorted:
  "sorted (rev (map (key_at ''createdAt'') (fst (idb_loadConversations now ft w))))"
proof -
  have "sorted (map (key_at k) (sort_key (\<lambda>r. (key_at k r, key_at ''id'' r)) xs))" for k xs
    using sorted_fst[of "\<lambda>r. (key_at k r, key_at ''id'' r)" "sort_key (\<lambda>r. (key_at k r, key_at ''id'' r)) xs"]
    by simp
  then show ?thesis
    by (auto simp: idb_loadConversations_def orderBy_reverse_def log_error_def rev_map split: prod.splits sum.splits)
qed

lemma insort_key_map:
  "insort_key f (g x) (map g ys) = map g (insort_key (\<lambda>y. f (g y)) x ys)"
  by (induction ys) auto

lemma sort_key_map: "sort_key f (map g xs) = map g (sort_key (\<lambda>y. f (g y)) xs)"
  by (induction xs) (auto simp: insort_key_map)

lemma key_at_conversation [simp]:
  "key_at ''createdAt'' (conversation_json c) = Some (KStr (createdAt c))"
  "key_at ''id'' (conversation_json c) = Some (KStr (cid c))"
  by (simp_all add: conversation_json_def)

lemma sorted_string_keys:
  "sorted (map (\<lambda>c. Some (KStr (g c))) ys) \<Longrightarrow> sorted (map g ys)"
  by (induction ys) auto

lemma migrate_done:
  "\<not> denied (localStorage (page w)) \<Longrightarrow> truthy_raw (items (localStorage (page w)) MIGRATION_DONE_KEY)
   \<Longrightarrow> migrateFromLocalStorage now ft w = (Inr (), w)"
  by (simp add: migrateFromLocalStorage_def getItem_def)

lemma idb_typed:
  assumes "\<not> closed w" "\<not> denied (localStorage (page w))"
    "truthy_raw (items (localStorage (page w)) MIGRATION_DONE_KEY)"
    "table w = map conversation_json cs"
  shows "\<exists>cs'. fst (idb_loadConversations now ft w) = map conversation_json cs' \<and> mset cs' = mset cs
            \<and> sorted (rev (map createdAt cs'))"
proof -
  let ?F = "\<lambda>c. (Some (KStr (createdAt c)), Some (KStr (cid c)))"
  let ?cs' = "rev (sort_key ?F cs)"
  have res: "fst (idb_loadConversations now ft w) = map conversation_json ?cs'"
    using assms
    by (simp add: idb_loadConversations_def migrate_done orderBy_reverse_def sort_key_map rev_map)
  have "sorted (map ?F (sort_key ?F cs))" by (rule sorted_sort_key)
  then have "sorted (map (\<lambda>c. Some (KStr (createdAt c))) (sort_key ?F cs))"
    using sorted_fst[of ?F "sort_key ?F cs"] by simp
  then have "sorted (map createdAt (sort_key ?F cs))" by (rule sorted_string_keys)
  then have "sorted (rev (map createdAt ?cs'))" by (simp add: rev_map)
  with res show ?thesis by (intro exI[of _ ?cs']) simp
qed


text \<open>
  Claim C5, as the code has it. The load of the IndexedDB store returns its records
  ordered by the key at \<^verbatim>\<open>createdAt\<close>, greatest first, whatever the state; for a table of
  conversations (with the migration done) the result is a rearrangement of the table,
  ordered by \<open>createdAt\<close> descending. The load of the localStorage store returns the
  stored array in the order in which it was written.
\<close>

theorem load_order:
  "sorted (rev (map (key_at ''createdAt'') (fst (idb_loadConversations now ft w))))
   \<and> (\<not> closed w \<and> \<not> denied (localStorage (page w))
        \<and> truthy_raw (items (localStorage (page w)) MIGRATION_DONE_KEY)
        \<and> table w = map conversation_json cs
      \<longrightarrow> (\<exists>cs'. fst (idb_loadConversations now ft w) = map conversation_json cs'
                 \<and> mset cs' = mset cs \<and> sorted (rev (map createdAt cs'))))
   \<and> (\<not> denied ls \<and> items ls CONV_STORAGE_KEY = Some (Json (conversations_json cs))
      \<longrightarrow> fst (loadConversations now ft \<lparr>localStorage = ls, console = lg\<rparr>)
          = map conversation_json cs)"
  using idb_sorted [of now ft w] idb_typed [of w cs now ft]
    load_current [of ls "map conversation_json cs" now ft lg]
  by (simp add: conversations_json_def)

theorem load_order_witness:
  "(\<exists>cs'. fst (idb_loadConversations 9 (\<lambda>n. ''chat'')
               \<lparr>page = migrated_page, table = map conversation_json [conv_a, conv_b],
                closed = False\<rparr>)
           = map conversation_json cs'
         \<and> mset cs' = mset [conv_a, conv_b] \<and> sorted (rev (map createdAt cs')))
   \<and> fst (loadConversations 9 (\<lambda>n. ''chat'')
            \<lparr>localStorage = current_only [conv_a, conv_b], console = []\<rparr>)
     = map conversation_json [conv_a, conv_b]"
  using load_order
    [of 9 "\<lambda>n. ''chat''"
        "\<lparr>page = migrated_page, table = map conversation_json [conv_a, conv_b], closed = False\<rparr>"
        "[conv_a, conv_b]" "current_only [conv_a, conv_b]" "[]"]
  by (simp add: migrated_page_def current_only_def)

text \<open>
  Claim C5 as stated fails on the localStorage store: a list saved oldest first is
  loaded oldest first.
\<close>

theorem load_keeps_written_order_counterexample:
  "fst (loadConversations 9 (\<lambda>n. ''chat'')
      (snd (saveConversations (conversations_json [conv_a, conv_b])
        \<lparr>localStorage = \<lparr>items = Map.empty, denied = False, full = False\<rparr>, console = []\<rparr>)))
   = map conversation_json [conv_a, conv_b]
   \<and> \<not> sorted (rev (map createdAt [conv_a, conv_b]))"
  by (simp add: save_ok conversations_json_def load_current conv_a_def conv_b_def
        less_eq_char_def)




end
